theory Spec2Isabelle
  imports Complex_Main "HOL-Library.Sublist"
begin

section \<open>Training and evaluation orchestration of \<open>src/zoo/train.py\<close>\<close>

text \<open>
  The module defines two functions, \<open>fit\<close> (the training orchestrator) and \<open>val\<close> (the
  evaluation pipeline). Both drive external collaborators (the model, the epoch trainer, the
  learning-rate scheduler, the metric accumulator) by method calls and mutate them in place.
  The embedding threads one explicit process state through every statement of the two
  functions; each call to a collaborator updates the part of the state it owns and appends
  an event to the \<open>trace\<close> of the state, so that the order of the calls can be stated.
  Weights are an opaque type \<open>'w\<close>; what the collaborators compute is a parameter.
\<close>

subsection \<open>Python helpers: \<open>range\<close>, \<open>str\<close>, \<open>os.path.join\<close>, \<open>in\<close>\<close>

text \<open>\<open>range(a, b)\<close> on Python integers: \<open>a, a + 1, ..., b - 1\<close>, empty when \<open>b \<le> a\<close>.\<close>

definition py_range :: "int \<Rightarrow> int \<Rightarrow> int list" where
  "py_range a b = [a..b - 1]"

definition digit_char :: "nat \<Rightarrow> char" where
  "digit_char d = char_of (48 + d)"

fun str_nat :: "nat \<Rightarrow> string" where
  "str_nat n = (if n < 10 then [digit_char n] else str_nat (n div 10) @ [digit_char (n mod 10)])"

declare str_nat.simps [simp del]

text \<open>The decimal rendering of an integer by an f-string, \<open>f'{epoch}'\<close>.\<close>

definition str_int :: "int \<Rightarrow> string" where
  "str_int i = (if i < 0 then CHR ''-'' # str_nat (nat (- i)) else str_nat (nat i))"

text \<open>\<open>os.path.join(a, b)\<close> with two arguments, on a POSIX system.\<close>

definition path_join :: "string \<Rightarrow> string \<Rightarrow> string" where
  "path_join a b =
     (if take 1 b = ''/'' then b
      else if a = [] \<or> last a = CHR ''/'' then a @ b
      else a @ ''/'' @ b)"

text \<open>\<open>needle in haystack\<close> on strings: \<open>needle\<close> occurs as a contiguous run of characters.\<close>

fun str_in :: "string \<Rightarrow> string \<Rightarrow> bool" where
  "str_in needle [] = (needle = [])"
| "str_in needle (c # cs) = (prefix needle (c # cs) \<or> str_in needle cs)"

subsection \<open>Data model\<close>

type_synonym path = string

datatype device = Cpu | Cuda

text \<open>
  The checkpoint record that \<open>state_dict(epoch, model, ema_model)\<close> builds and that
  \<open>torch.load\<close> reads back: the keys \<open>epoch\<close> and \<open>model\<close>, and the key \<open>ema\<close> (holding
  \<open>{module: weights}\<close>) only when an EMA shadow exists.
\<close>

record 'w checkpoint =
  ck_epoch :: int
  ck_model :: 'w
  ck_ema :: "'w option"

text \<open>\<open>GradScaler()\<close>, constructed with its default arguments.\<close>

datatype grad_scaler = GradScaler

text \<open>\<open>ModelEMA(model, decay=..., warmups=...)\<close>: the shadow weights and the two settings.\<close>

record 'w model_ema =
  module :: 'w
  decay :: real
  warmups :: nat

text \<open>
  \<open>MultiStepLR(optimizer, milestones, gamma)\<close>: its settings and the number of times
  \<open>step()\<close> has been called on it.
\<close>

record multi_step_lr =
  milestones :: "nat list"
  gamma :: real
  step_count :: nat

datatype loader = TrainLoader | ValLoader

text \<open>Which entry of a loaded state \<open>val\<close> hands to \<open>model.load_state_dict\<close>.\<close>

datatype entry = EmaModule | Model

text \<open>The arguments of one call \<open>train_one_epoch(..., epoch, max_norm, print_freq, ema, scaler)\<close>.\<close>

record train_call =
  tc_epoch :: int
  max_norm :: real
  print_freq :: nat
  tc_ema :: bool
  tc_scaler :: bool

datatype event =
    LoadTuningState path
  | ModelTo device
  | EmaTo device
  | CriterionTo device
  | WarpLoader loader
  | WarpModel bool bool
  | SetEpoch int
  | TrainOneEpoch train_call
  | LrStep
  | TorchSave path
  | ModelEval
  | CriterionEval
  | LoadStateDictFromUrl path
  | TorchLoad path
  | LoadStateDict entry bool
  | Forward bool bool
  | Update
  | LoggerSync
  | EvaluatorSync
  | Accumulate
  | Summarize

text \<open>
  What the process knows of its surroundings: whether a CUDA device exists, whether the
  process group is initialised, the global rank of this process, and what a URL fetch
  returns.
\<close>

record 'w env =
  cuda_available :: bool
  dist_initialized :: bool
  rank :: nat
  hub :: "path \<rightharpoonup> 'w checkpoint"

text \<open>
  The external collaborators, as functions: the epoch trainer's effect on the live weights
  and on the EMA shadow, and the effect of restoring a checkpoint on them.
\<close>

record 'w collab =
  train_model :: "train_call \<Rightarrow> 'w \<Rightarrow> 'w"
  train_ema :: "train_call \<Rightarrow> 'w \<Rightarrow> 'w \<Rightarrow> 'w"
  restore_model :: "'w checkpoint \<Rightarrow> 'w \<Rightarrow> 'w"
  restore_ema :: "'w checkpoint \<Rightarrow> 'w \<Rightarrow> 'w"

text \<open>
  The process state: the model's weights and mode, the criterion's mode, the gradient
  switch of the autograd engine, the checkpoint files on disk, the objects \<open>fit\<close>
  constructs or assigns (\<open>ema_model\<close>, \<open>scaler\<close>, \<open>lr_scheduler\<close>, \<open>last_epoch\<close>), and the
  trace of calls.
\<close>

record 'w state =
  model :: 'w
  model_training :: bool
  criterion_training :: bool
  grad_enabled :: bool
  files :: "path \<rightharpoonup> 'w checkpoint"
  ema_model :: "'w model_ema option"
  scaler :: "grad_scaler option"
  lr_scheduler :: multi_step_lr
  last_epoch :: int
  trace :: "event list"

datatype error = FileNotFound path | FetchFailed path

definition emit :: "event \<Rightarrow> 'w state \<Rightarrow> 'w state" where
  "emit e s = s\<lparr>trace := trace s @ [e]\<rparr>"

subsection \<open>The distributed coordinator (\<open>src.misc.dist\<close>)\<close>

text \<open>
  Modelled from the spec: the module \<open>src/misc/dist.py\<close> is not among the sources. The spec
  gives one boolean predicate for single-process versus multi-process execution, and a
  persistence action that runs only on the single coordinating process, global rank 0;
  a process outside any process group is its own coordinator.
\<close>

definition is_dist_available_and_initialized :: "'w env \<Rightarrow> bool" where
  "is_dist_available_and_initialized en = dist_initialized en"

definition get_rank :: "'w env \<Rightarrow> nat" where
  "get_rank en = (if is_dist_available_and_initialized en then rank en else 0)"

definition is_main_process :: "'w env \<Rightarrow> bool" where
  "is_main_process en = (get_rank en = 0)"

definition save_on_master :: "'w env \<Rightarrow> 'w checkpoint \<Rightarrow> path \<Rightarrow> 'w state \<Rightarrow> 'w state" where
  "save_on_master en ck p s =
     (if is_main_process en then emit (TorchSave p) (s\<lparr>files := (files s)(p \<mapsto> ck)\<rparr>) else s)"

definition warp_loader :: "loader \<Rightarrow> 'w state \<Rightarrow> 'w state" where
  "warp_loader l s = emit (WarpLoader l) s"

definition warp_model :: "bool \<Rightarrow> bool \<Rightarrow> 'w state \<Rightarrow> 'w state" where
  "warp_model find_unused_parameters sync_bn s = emit (WarpModel find_unused_parameters sync_bn) s"

subsection \<open>Checkpoint helpers (\<open>src.nn.rtdetr.utils\<close>)\<close>

text \<open>
  Modelled from the spec: \<open>state_dict\<close> of \<open>src/nn/rtdetr/utils.py\<close> is not among the
  sources. The spec's checkpoint contains the epoch, the model weights, and the EMA weights
  if present.
\<close>

definition state_dict :: "int \<Rightarrow> 'w \<Rightarrow> 'w model_ema option \<Rightarrow> 'w checkpoint" where
  "state_dict e m em = \<lparr>ck_epoch = e, ck_model = m, ck_ema = map_option module em\<rparr>"

text \<open>
  Modelled from the spec: \<open>load_tuning_state\<close> of \<open>src/nn/rtdetr/utils.py\<close> is not among
  the sources. The spec has resuming read the named checkpoint, restore the trainable state
  from it and return its \<open>epoch\<close> field as the resume point. A path that names no
  checkpoint raises.
\<close>

definition load_tuning_state ::
  "'w collab \<Rightarrow> path \<Rightarrow> 'w state \<Rightarrow> error + (int \<times> 'w state)" where
  "load_tuning_state co p s =
     (case files s p of
        None \<Rightarrow> Inl (FileNotFound p)
      | Some ck \<Rightarrow>
          Inr (ck_epoch ck,
               emit (LoadTuningState p)
                 (s\<lparr>model := restore_model co ck (model s),
                    ema_model := map_option (\<lambda>em. em\<lparr>module := restore_ema co ck (module em)\<rparr>)
                                   (ema_model s)\<rparr>)))"

subsection \<open>\<open>fit\<close>\<close>

text \<open>Lines 43 to 45: the three objects constructed from the flags.\<close>

definition construct_objects :: "bool \<Rightarrow> bool \<Rightarrow> 'w state \<Rightarrow> 'w state" where
  "construct_objects use_amp use_ema s =
     s\<lparr>scaler := (if use_amp then Some GradScaler else None),
        ema_model := (if use_ema
                      then Some \<lparr>module = model s, decay = 9999 / 10000, warmups = 2000\<rparr>
                      else None),
        lr_scheduler := \<lparr>milestones = [1000], gamma = 1 / 10, step_count = 0\<rparr>\<rparr>"

definition the_device :: "'w env \<Rightarrow> device" where
  "the_device en = (if cuda_available en then Cuda else Cpu)"

text \<open>Lines 51 to 55: the model, the EMA shadow (when there is one) and the criterion go to the device.\<close>

definition to_device :: "'w env \<Rightarrow> bool \<Rightarrow> 'w state \<Rightarrow> 'w state" where
  "to_device en use_ema s =
     (let s1 = emit (ModelTo (the_device en)) s;
          s2 = (if use_ema then emit (EmaTo (the_device en)) s1 else s1)
      in emit (CriterionTo (the_device en)) s2)"

text \<open>Lines 58 to 64: the loaders and the model are wrapped in a process group only.\<close>

definition dist_wrap :: "'w env \<Rightarrow> 'w state \<Rightarrow> 'w state" where
  "dist_wrap en s =
     (if is_dist_available_and_initialized en
      then warp_model False True (warp_loader ValLoader (warp_loader TrainLoader s))
      else s)"

definition set_epoch :: "int \<Rightarrow> 'w state \<Rightarrow> 'w state" where
  "set_epoch e s = emit (SetEpoch e) s"

definition train_one_epoch :: "'w collab \<Rightarrow> train_call \<Rightarrow> 'w state \<Rightarrow> 'w state" where
  "train_one_epoch co c s =
     emit (TrainOneEpoch c)
       (s\<lparr>model := train_model co c (model s),
          ema_model := map_option (\<lambda>em. em\<lparr>module := train_ema co c (model s) (module em)\<rparr>)
                         (ema_model s)\<rparr>)"

definition lr_step :: "'w state \<Rightarrow> 'w state" where
  "lr_step s =
     emit LrStep (s\<lparr>lr_scheduler := (lr_scheduler s)\<lparr>step_count := Suc (step_count (lr_scheduler s))\<rparr>\<rparr>)"

text \<open>Lines 75 to 82: the body of the epoch loop.\<close>

definition epoch_body :: "'w env \<Rightarrow> 'w collab \<Rightarrow> path \<Rightarrow> int \<Rightarrow> 'w state \<Rightarrow> 'w state" where
  "epoch_body en co save_dir e s =
     (let s1 = (if is_dist_available_and_initialized en then set_epoch e s else s);
          s2 = train_one_epoch co
                 \<lparr>tc_epoch = e, max_norm = 1 / 10, print_freq = 100,
                  tc_ema = (ema_model s1 \<noteq> None), tc_scaler = (scaler s1 \<noteq> None)\<rparr> s1;
          s3 = lr_step s2
      in save_on_master en (state_dict e (model s3) (ema_model s3))
           (path_join save_dir (str_int e @ ''.pth'')) s3)"

fun epoch_loop :: "'w env \<Rightarrow> 'w collab \<Rightarrow> path \<Rightarrow> int list \<Rightarrow> 'w state \<Rightarrow> 'w state" where
  "epoch_loop en co save_dir [] s = s"
| "epoch_loop en co save_dir (e # es) s = epoch_loop en co save_dir es (epoch_body en co save_dir e s)"

text \<open>Lines 47 to 49: the resume point, \<open>0\<close> for a fresh run.\<close>

definition resume :: "'w collab \<Rightarrow> path option \<Rightarrow> 'w state \<Rightarrow> error + 'w state" where
  "resume co weight_path s =
     (case weight_path of
        None \<Rightarrow> Inr (s\<lparr>last_epoch := 0\<rparr>)
      | Some p \<Rightarrow>
          (case load_tuning_state co p s of
             Inl err \<Rightarrow> Inl err
           | Inr (r, s') \<Rightarrow> Inr (s'\<lparr>last_epoch := r\<rparr>)))"

definition fit ::
  "'w env \<Rightarrow> 'w collab \<Rightarrow> path option \<Rightarrow> path \<Rightarrow> int \<Rightarrow> bool \<Rightarrow> bool \<Rightarrow> 'w state
     \<Rightarrow> error + 'w state" where
  "fit en co weight_path save_dir epoch use_amp use_ema s =
     (case resume co weight_path (construct_objects use_amp use_ema s) of
        Inl err \<Rightarrow> Inl err
      | Inr s1 \<Rightarrow>
          Inr (epoch_loop en co save_dir (py_range (last_epoch s1 + 1) epoch)
                 (dist_wrap en (to_device en use_ema s1))))"

subsection \<open>\<open>val\<close>\<close>

text \<open>
  The model as \<open>val\<close> uses it: \<open>model.load_state_dict(weights, strict=...)\<close>, and
  \<open>model(samples)\<close> followed by the postprocessor, which gives one detection list per image
  of the batch; \<open>image_ids\<close> reads the \<open>image_id\<close> of every target of a batch.
\<close>

record ('w, 'b, 'd) detector =
  load_state_dict :: "bool \<Rightarrow> 'w \<Rightarrow> 'w \<Rightarrow> 'w"
  detect :: "'w \<Rightarrow> 'b \<Rightarrow> 'd list"
  image_ids :: "'b \<Rightarrow> nat list"

text \<open>
  The metric accumulator \<open>CocoEvaluator\<close>, an external collaborator with an opaque state
  \<open>'e\<close>: its constructor, its four methods, and the statistic vector it holds for a task
  type, \<open>coco_eval[t].stats.tolist()\<close>.
\<close>

record ('d, 'e) coco =
  ev_new :: "string list \<Rightarrow> 'e"
  ev_update :: "(nat \<rightharpoonup> 'd) \<Rightarrow> 'e \<Rightarrow> 'e"
  ev_synchronize :: "'e \<Rightarrow> 'e"
  ev_accumulate :: "'e \<Rightarrow> 'e"
  ev_summarize :: "'e \<Rightarrow> 'e"
  ev_stats :: "string \<Rightarrow> 'e \<Rightarrow> real list"

definition model_eval :: "'w state \<Rightarrow> 'w state" where
  "model_eval s = emit ModelEval (s\<lparr>model_training := False\<rparr>)"

definition criterion_eval :: "'w state \<Rightarrow> 'w state" where
  "criterion_eval s = emit CriterionEval (s\<lparr>criterion_training := False\<rparr>)"

text \<open>
  Line 110: \<open>torch.hub.load_state_dict_from_url(weight_path)\<close> if \<open>'http' in weight_path\<close>,
  else \<open>torch.load(weight_path)\<close>. The call is made, then it returns the state or raises.
\<close>

definition load_state ::
  "'w env \<Rightarrow> path \<Rightarrow> 'w state \<Rightarrow> (error + 'w checkpoint) \<times> 'w state" where
  "load_state en weight_path s =
     (if str_in ''http'' weight_path
      then (case hub en weight_path of
              None \<Rightarrow> Inl (FetchFailed weight_path)
            | Some st \<Rightarrow> Inr st,
            emit (LoadStateDictFromUrl weight_path) s)
      else (case files s weight_path of
              None \<Rightarrow> Inl (FileNotFound weight_path)
            | Some st \<Rightarrow> Inr st,
            emit (TorchLoad weight_path) s))"

text \<open>Lines 111 to 114: the EMA weights when the state has the key \<open>ema\<close>, the plain weights otherwise.\<close>

definition load_into_model ::
  "('w, 'b, 'd) detector \<Rightarrow> 'w checkpoint \<Rightarrow> 'w state \<Rightarrow> 'w state" where
  "load_into_model dt st s =
     (case ck_ema st of
        Some w \<Rightarrow> emit (LoadStateDict EmaModule False) (s\<lparr>model := load_state_dict dt False w (model s)\<rparr>)
      | None \<Rightarrow>
          emit (LoadStateDict Model False) (s\<lparr>model := load_state_dict dt False (ck_model st) (model s)\<rparr>))"

text \<open>Lines 109 to 114: the loading step.\<close>

definition load_weights ::
  "'w env \<Rightarrow> ('w, 'b, 'd) detector \<Rightarrow> path option \<Rightarrow> 'w state \<Rightarrow> error option \<times> 'w state" where
  "load_weights en dt weight_path s =
     (case weight_path of
        None \<Rightarrow> (None, s)
      | Some p \<Rightarrow>
          (case load_state en p s of
             (Inl err, s1) \<Rightarrow> (Some err, s1)
           | (Inr st, s1) \<Rightarrow> (None, load_into_model dt st s1)))"

text \<open>
  Lines 124 to 135: one batch. The forward pass runs under the gradient switch and the
  model mode of the moment, which the event records; \<open>res\<close> is the dictionary from image
  identifier to detection list, a later entry replacing an earlier one with the same key.
\<close>

definition eval_batch ::
  "('w, 'b, 'd) detector \<Rightarrow> ('d, 'e) coco \<Rightarrow> 'b \<Rightarrow> 'w state \<times> 'e \<Rightarrow> 'w state \<times> 'e" where
  "eval_batch dt cv b = (\<lambda>(s, ev).
     (let s1 = emit (Forward (grad_enabled s) (model_training s)) s;
          results = detect dt (model s1) b;
          res = map_of (rev (zip (image_ids dt b) results))
      in (emit Update s1, ev_update cv res ev)))"

fun eval_loop ::
  "('w, 'b, 'd) detector \<Rightarrow> ('d, 'e) coco \<Rightarrow> 'b list \<Rightarrow> 'w state \<times> 'e \<Rightarrow> 'w state \<times> 'e" where
  "eval_loop dt cv [] se = se"
| "eval_loop dt cv (b # bs) se = eval_loop dt cv bs (eval_batch dt cv b se)"

text \<open>Lines 138 to 147: synchronise the logger and the accumulator, then accumulate and summarise.\<close>

definition finish :: "('d, 'e) coco \<Rightarrow> 'w state \<times> 'e \<Rightarrow> 'w state \<times> 'e" where
  "finish cv = (\<lambda>(s, ev).
     (let s1 = emit LoggerSync s;
          (s2, ev2) = (emit EvaluatorSync s1, ev_synchronize cv ev);
          (s3, ev3) = (emit Accumulate s2, ev_accumulate cv ev2)
      in (emit Summarize s3, ev_summarize cv ev3)))"

text \<open>Lines 149 to 155: the returned dictionary.\<close>

definition make_stats :: "('d, 'e) coco \<Rightarrow> string list \<Rightarrow> 'e \<Rightarrow> (string \<rightharpoonup> real list)" where
  "make_stats cv iou_types ev =
     (let stats = Map.empty;
          stats = (if ''bbox'' \<in> set iou_types
                   then stats(''coco_eval_bbox'' \<mapsto> ev_stats cv ''bbox'' ev) else stats);
          stats = (if ''segm'' \<in> set iou_types
                   then stats(''coco_eval_masks'' \<mapsto> ev_stats cv ''segm'' ev) else stats)
      in stats)"

text \<open>
  The body of \<open>val\<close>, lines 95 to 157, for a validation loader that yields \<open>batches\<close> and a
  postprocessor whose task types are \<open>iou_types\<close>.
\<close>

definition val_body ::
  "'w env \<Rightarrow> ('w, 'b, 'd) detector \<Rightarrow> ('d, 'e) coco \<Rightarrow> string list \<Rightarrow> 'b list \<Rightarrow> path option
     \<Rightarrow> 'w state \<Rightarrow> (error + (string \<rightharpoonup> real list) \<times> 'e) \<times> 'w state" where
  "val_body en dt cv iou_types batches weight_path s =
     (let s1 = criterion_eval (model_eval s);
          coco_evaluator = ev_new cv iou_types
      in case load_weights en dt weight_path s1 of
           (Some err, s2) \<Rightarrow> (Inl err, s2)
         | (None, s2) \<Rightarrow>
             (let s3 = emit (CriterionTo (the_device en)) (emit (ModelTo (the_device en)) s2);
                  (s4, ev) = finish cv (eval_loop dt cv batches (s3, coco_evaluator))
              in (Inr (make_stats cv iou_types ev, ev), s4)))"

text \<open>
  The decorator \<open>@torch.no_grad()\<close>: the switch is off while the function runs and is put
  back when it returns or raises.
\<close>

definition no_grad :: "('w state \<Rightarrow> 'a \<times> 'w state) \<Rightarrow> 'w state \<Rightarrow> 'a \<times> 'w state" where
  "no_grad f s =
     (let prev = grad_enabled s;
          (r, s') = f (s\<lparr>grad_enabled := False\<rparr>)
      in (r, s'\<lparr>grad_enabled := prev\<rparr>))"

definition val ::
  "'w env \<Rightarrow> ('w, 'b, 'd) detector \<Rightarrow> ('d, 'e) coco \<Rightarrow> string list \<Rightarrow> 'b list \<Rightarrow> path option
     \<Rightarrow> 'w state \<Rightarrow> (error + (string \<rightharpoonup> real list) \<times> 'e) \<times> 'w state" where
  "val en dt cv iou_types batches weight_path = no_grad (val_body en dt cv iou_types batches weight_path)"

subsection \<open>Observations on a run\<close>

primrec saved_path :: "event \<Rightarrow> path list" where
  "saved_path (LoadTuningState p) = []"
| "saved_path (ModelTo d) = []"
| "saved_path (EmaTo d) = []"
| "saved_path (CriterionTo d) = []"
| "saved_path (WarpLoader l) = []"
| "saved_path (WarpModel f b) = []"
| "saved_path (SetEpoch e) = []"
| "saved_path (TrainOneEpoch c) = []"
| "saved_path LrStep = []"
| "saved_path (TorchSave p) = [p]"
| "saved_path ModelEval = []"
| "saved_path CriterionEval = []"
| "saved_path (LoadStateDictFromUrl p) = []"
| "saved_path (TorchLoad p) = []"
| "saved_path (LoadStateDict w b) = []"
| "saved_path (Forward g t) = []"
| "saved_path Update = []"
| "saved_path LoggerSync = []"
| "saved_path EvaluatorSync = []"
| "saved_path Accumulate = []"
| "saved_path Summarize = []"

text \<open>The paths of the checkpoint files written, in the order of writing.\<close>

definition written :: "event list \<Rightarrow> path list" where
  "written tr = concat (map saved_path tr)"

primrec trained_epoch :: "event \<Rightarrow> int list" where
  "trained_epoch (LoadTuningState p) = []"
| "trained_epoch (ModelTo d) = []"
| "trained_epoch (EmaTo d) = []"
| "trained_epoch (CriterionTo d) = []"
| "trained_epoch (WarpLoader l) = []"
| "trained_epoch (WarpModel f b) = []"
| "trained_epoch (SetEpoch e) = []"
| "trained_epoch (TrainOneEpoch c) = [tc_epoch c]"
| "trained_epoch LrStep = []"
| "trained_epoch (TorchSave p) = []"
| "trained_epoch ModelEval = []"
| "trained_epoch CriterionEval = []"
| "trained_epoch (LoadStateDictFromUrl p) = []"
| "trained_epoch (TorchLoad p) = []"
| "trained_epoch (LoadStateDict w b) = []"
| "trained_epoch (Forward g t) = []"
| "trained_epoch Update = []"
| "trained_epoch LoggerSync = []"
| "trained_epoch EvaluatorSync = []"
| "trained_epoch Accumulate = []"
| "trained_epoch Summarize = []"

text \<open>The epochs for which a training pass was made, in order.\<close>

definition epochs_run :: "event list \<Rightarrow> int list" where
  "epochs_run tr = concat (map trained_epoch tr)"

text \<open>The events a function appended to the trace it started from.\<close>

definition new_events :: "'w state \<Rightarrow> 'w state \<Rightarrow> event list" where
  "new_events s s' = drop (length (trace s)) (trace s')"

text \<open>The name of the checkpoint file of an epoch, line 82.\<close>

definition checkpoint_path :: "path \<Rightarrow> int \<Rightarrow> path" where
  "checkpoint_path save_dir e = path_join save_dir (str_int e @ ''.pth'')"

text \<open>
  The calls of one iteration of the epoch loop as the specification orders them: the
  sampler is told the epoch (in a process group only), one training pass with clipping norm
  \<open>0.1\<close>, one step of the schedule, the checkpoint write (on the coordinating process only).
\<close>

definition iteration_events :: "'w env \<Rightarrow> path \<Rightarrow> bool \<Rightarrow> bool \<Rightarrow> int \<Rightarrow> event list" where
  "iteration_events en save_dir has_ema has_scaler e =
     (if is_dist_available_and_initialized en then [SetEpoch e] else []) @
     [TrainOneEpoch \<lparr>tc_epoch = e, max_norm = 1 / 10, print_freq = 100,
                     tc_ema = has_ema, tc_scaler = has_scaler\<rparr>,
      LrStep] @
     (if is_main_process en then [TorchSave (checkpoint_path save_dir e)] else [])"

text \<open>The calls \<open>fit\<close> makes before its epoch loop.\<close>

definition setup_events :: "'w env \<Rightarrow> path option \<Rightarrow> bool \<Rightarrow> event list" where
  "setup_events en weight_path use_ema =
     (case weight_path of None \<Rightarrow> [] | Some p \<Rightarrow> [LoadTuningState p]) @
     [ModelTo (the_device en)] @
     (if use_ema then [EmaTo (the_device en)] else []) @
     [CriterionTo (the_device en)] @
     (if is_dist_available_and_initialized en
      then [WarpLoader TrainLoader, WarpLoader ValLoader, WarpModel False True] else [])"

text \<open>
  The number of epochs completed when a run of \<open>fit\<close> that started in \<open>s\<close> ends in
  \<open>s'\<close>: the resume point plus the training passes the run made.
\<close>

definition final_epoch_count :: "'w state \<Rightarrow> 'w state \<Rightarrow> int" where
  "final_epoch_count s s' = last_epoch s' + int (length (epochs_run (new_events s s')))"

text \<open>The calls that wrap a loader or the model for a process group.\<close>

primrec is_warp :: "event \<Rightarrow> bool" where
  "is_warp (LoadTuningState p) = False"
| "is_warp (ModelTo d) = False"
| "is_warp (EmaTo d) = False"
| "is_warp (CriterionTo d) = False"
| "is_warp (WarpLoader l) = True"
| "is_warp (WarpModel f b) = True"
| "is_warp (SetEpoch e) = False"
| "is_warp (TrainOneEpoch c) = False"
| "is_warp LrStep = False"
| "is_warp (TorchSave p) = False"
| "is_warp ModelEval = False"
| "is_warp CriterionEval = False"
| "is_warp (LoadStateDictFromUrl p) = False"
| "is_warp (TorchLoad p) = False"
| "is_warp (LoadStateDict w b) = False"
| "is_warp (Forward g t) = False"
| "is_warp Update = False"
| "is_warp LoggerSync = False"
| "is_warp EvaluatorSync = False"
| "is_warp Accumulate = False"
| "is_warp Summarize = False"

text \<open>
  The factor a \<open>MultiStepLR\<close> schedule applies to the base learning rate, by the closed
  form of the PyTorch documentation: one factor \<open>gamma\<close> for every milestone reached.
\<close>

definition lr_factor :: "multi_step_lr \<Rightarrow> real" where
  "lr_factor sch = gamma sch ^ length (filter (\<lambda>m. m \<le> step_count sch) (milestones sch))"

text \<open>
  What the weight source \<open>p\<close> of \<open>val\<close> yields: the URL fetch when \<open>p\<close> contains \<open>http\<close>,
  the local file otherwise; nothing when the fetch or the read raises.
\<close>

definition fetch :: "'w env \<Rightarrow> 'w state \<Rightarrow> path \<Rightarrow> 'w checkpoint option" where
  "fetch en s p = (if str_in ''http'' p then hub en p else files s p)"

text \<open>The calls of the loading step of \<open>val\<close>: none without a weight source.\<close>

definition loading_events :: "'w env \<Rightarrow> 'w state \<Rightarrow> path option \<Rightarrow> event list" where
  "loading_events en s weight_path =
     (case weight_path of
        None \<Rightarrow> []
      | Some p \<Rightarrow>
          (if str_in ''http'' p then LoadStateDictFromUrl p else TorchLoad p) #
          (case fetch en s p of
             None \<Rightarrow> []
           | Some st \<Rightarrow>
               [LoadStateDict (case ck_ema st of Some w \<Rightarrow> EmaModule | None \<Rightarrow> Model) False]))"

text \<open>The weights of the model after the loading step of \<open>val\<close>.\<close>

definition loaded_model ::
  "'w env \<Rightarrow> ('w, 'b, 'd) detector \<Rightarrow> 'w state \<Rightarrow> path option \<Rightarrow> 'w" where
  "loaded_model en dt s weight_path =
     (case weight_path of
        None \<Rightarrow> model s
      | Some p \<Rightarrow>
          (case fetch en s p of
             None \<Rightarrow> model s
           | Some st \<Rightarrow>
               load_state_dict dt False (case ck_ema st of Some w \<Rightarrow> w | None \<Rightarrow> ck_model st)
                 (model s)))"

text \<open>Whether the loading step of \<open>val\<close> raises, and what.\<close>

definition loading_error :: "'w env \<Rightarrow> 'w state \<Rightarrow> path option \<Rightarrow> error option" where
  "loading_error en s weight_path =
     (case weight_path of
        None \<Rightarrow> None
      | Some p \<Rightarrow>
          (case fetch en s p of
             None \<Rightarrow> Some (if str_in ''http'' p then FetchFailed p else FileNotFound p)
           | Some st \<Rightarrow> None))"

text \<open>
  The calls of \<open>val\<close> after the loading step: model and criterion go to the device, every
  batch is a forward pass without gradients in evaluation mode followed by an update of
  the accumulator, then the two synchronisations, then accumulate and summarise.
\<close>

definition pass_events :: "'w env \<Rightarrow> 'b list \<Rightarrow> event list" where
  "pass_events en batches =
     [ModelTo (the_device en), CriterionTo (the_device en)] @
     concat (map (\<lambda>b. [Forward False False, Update]) batches) @
     [LoggerSync, EvaluatorSync, Accumulate, Summarize]"

text \<open>
  The accumulator after the batches were evaluated with weights \<open>w\<close>: constructed for the
  task types, updated once per batch, synchronised, accumulated, summarised.
\<close>

definition evaluated ::
  "('w, 'b, 'd) detector \<Rightarrow> ('d, 'e) coco \<Rightarrow> string list \<Rightarrow> 'b list \<Rightarrow> 'w \<Rightarrow> 'e" where
  "evaluated dt cv iou_types batches w =
     ev_summarize cv (ev_accumulate cv (ev_synchronize cv
       (fold (\<lambda>b. ev_update cv (map_of (rev (zip (image_ids dt b) (detect dt w b)))))
          batches (ev_new cv iou_types))))"

text \<open>The settings of the EMA shadow and of the schedule, which no statement of \<open>fit\<close> changes.\<close>

definition ema_settings :: "'w state \<Rightarrow> (real \<times> nat) option" where
  "ema_settings s = map_option (\<lambda>em. (decay em, warmups em)) (ema_model s)"

definition lr_settings :: "'w state \<Rightarrow> nat list \<times> real" where
  "lr_settings s = (milestones (lr_scheduler s), gamma (lr_scheduler s))"

subsection \<open>Concrete inputs\<close>

text \<open>
  A single process outside any process group, without CUDA; collaborators that leave the
  (unit) weights as they are; a process state with no checkpoint file and an empty trace.
\<close>

definition solo :: "unit env" where
  "solo = \<lparr>cuda_available = False, dist_initialized = False, rank = 0, hub = Map.empty\<rparr>"

definition still :: "unit collab" where
  "still = \<lparr>train_model = (\<lambda>c w. w), train_ema = (\<lambda>c m w. w),
            restore_model = (\<lambda>ck w. w), restore_ema = (\<lambda>ck w. w)\<rparr>"

definition fresh :: "unit state" where
  "fresh = \<lparr>model = (), model_training = True, criterion_training = True, grad_enabled = True,
            files = Map.empty, ema_model = None, scaler = None,
            lr_scheduler = \<lparr>milestones = [], gamma = 1, step_count = 0\<rparr>,
            last_epoch = 0, trace = []\<rparr>"

text \<open>The same state with one checkpoint file, saved at epoch \<open>r\<close>, under the name \<open>p\<close>.\<close>

definition with_checkpoint :: "path \<Rightarrow> int \<Rightarrow> unit state" where
  "with_checkpoint p r = fresh\<lparr>files := [p \<mapsto> \<lparr>ck_epoch = r, ck_model = (), ck_ema = None\<rparr>]\<rparr>"

text \<open>The coordinating process of a process group, with CUDA.\<close>

definition leader :: "unit env" where
  "leader = \<lparr>cuda_available = True, dist_initialized = True, rank = 0, hub = Map.empty\<rparr>"

text \<open>
  Inputs for \<open>val\<close>. Weights are numbers; \<open>load_state_dict\<close> takes the loaded weights, a
  batch is one image whose detection is the sum of weights and image. The accumulator
  keeps the list of the method calls made on it. The host has no CUDA and no process
  group; one URL answers with a state that has EMA weights. The process state holds a
  checkpoint file with EMA weights, one without, and one whose name contains \<open>http\<close>.
\<close>

definition net :: "(nat, nat, nat) detector" where
  "net = \<lparr>load_state_dict = (\<lambda>strict w old. w), detect = (\<lambda>w b. [w + b]), image_ids = (\<lambda>b. [b])\<rparr>"

definition tally :: "(nat, string list) coco" where
  "tally = \<lparr>ev_new = (\<lambda>iou. [''new'']), ev_update = (\<lambda>res e. e @ [''update'']),
            ev_synchronize = (\<lambda>e. e @ [''synchronize'']), ev_accumulate = (\<lambda>e. e @ [''accumulate'']),
            ev_summarize = (\<lambda>e. e @ [''summarize'']), ev_stats = (\<lambda>t e. [real (length e)])\<rparr>"

definition host :: "nat env" where
  "host = \<lparr>cuda_available = False, dist_initialized = False, rank = 0,
           hub = [''https://models/w.pth'' \<mapsto> \<lparr>ck_epoch = 72, ck_model = 3, ck_ema = Some 4\<rparr>]\<rparr>"

definition idle :: "nat state" where
  "idle = \<lparr>model = 0, model_training = True, criterion_training = True, grad_enabled = True,
           files = [''ema.pth'' \<mapsto> \<lparr>ck_epoch = 5, ck_model = 7, ck_ema = Some 9\<rparr>,
                    ''plain.pth'' \<mapsto> \<lparr>ck_epoch = 5, ck_model = 7, ck_ema = None\<rparr>,
                    ''/data/http_cache/model.pth'' \<mapsto> \<lparr>ck_epoch = 5, ck_model = 7, ck_ema = None\<rparr>],
           ema_model = None, scaler = None,
           lr_scheduler = \<lparr>milestones = [], gamma = 1, step_count = 0\<rparr>,
           last_epoch = 0, trace = []\<rparr>"

section \<open>Lemmas\<close>

subsection \<open>Checkpoint file names\<close>

lemma digit_char_decode: "d < 10 \<Longrightarrow> (of_char (digit_char d) :: nat) = 48 + d"
  by (simp add: digit_char_def)

lemma str_nat_decode: "foldl (\<lambda>a c. 10 * a + (of_char c - 48)) 0 (str_nat n) = n"
proof (induction n rule: str_nat.induct)
  case (1 n)
  show ?case
  proof (cases "n < 10")
    case True
    then show ?thesis by (subst str_nat.simps) (simp add: digit_char_decode)
  next
    case False
    then have "foldl (\<lambda>a c. 10 * a + (of_char c - 48)) 0 (str_nat (n div 10)) = n div 10"
      using 1 by simp
    with False show ?thesis
      by (subst str_nat.simps) (simp add: digit_char_decode)
  qed
qed

lemma str_nat_inj: "str_nat m = str_nat n \<Longrightarrow> m = n"
  by (metis str_nat_decode)

lemma str_nat_head: "\<exists>d rest. d < 10 \<and> str_nat n = digit_char d # rest"
proof (induction n rule: str_nat.induct)
  case (1 n)
  show ?case
  proof (cases "n < 10")
    case True
    then show ?thesis by (subst str_nat.simps) auto
  next
    case False
    then obtain d rest where "d < 10" "str_nat (n div 10) = digit_char d # rest"
      using 1 by blast
    with False show ?thesis by (subst str_nat.simps) auto
  qed
qed

lemma digit_char_not_special:
  "d < 10 \<Longrightarrow> digit_char d \<noteq> CHR ''-'' \<and> digit_char d \<noteq> CHR ''/''"
proof -
  assume d: "d < 10"
  have "(of_char (digit_char d) :: nat) \<noteq> of_char CHR ''-''"
    using d by (simp add: digit_char_decode)
  moreover have "(of_char (digit_char d) :: nat) \<noteq> of_char CHR ''/''"
    using d by (simp add: digit_char_decode)
  ultimately show "digit_char d \<noteq> CHR ''-'' \<and> digit_char d \<noteq> CHR ''/''" by auto
qed

lemma str_int_inj: "str_int i = str_int j \<Longrightarrow> i = j"
proof -
  assume eq: "str_int i = str_int j"
  have mixed: False if "a < 0" "\<not> b < 0" "str_int a = str_int b" for a b :: int
  proof -
    obtain d rest where "d < 10" "str_nat (nat b) = digit_char d # rest"
      using str_nat_head by blast
    with that show False by (auto simp: str_int_def dest: digit_char_not_special)
  qed
  show "i = j"
  proof (cases "i < 0"; cases "j < 0")
    assume "i < 0" "j < 0"
    with eq have "nat (- i) = nat (- j)" by (simp add: str_int_def str_nat_inj)
    with \<open>i < 0\<close> \<open>j < 0\<close> show ?thesis by simp
  next
    assume "i < 0" "\<not> j < 0"
    with eq mixed show ?thesis by blast
  next
    assume "\<not> i < 0" "j < 0"
    with eq mixed [of j i] show ?thesis by simp
  next
    assume "\<not> i < 0" "\<not> j < 0"
    with eq have "nat i = nat j" by (simp add: str_int_def str_nat_inj)
    with \<open>\<not> i < 0\<close> \<open>\<not> j < 0\<close> show ?thesis by simp
  qed
qed

lemma str_int_head: "take 1 (str_int i @ ''.pth'') \<noteq> ''/''"
proof -
  obtain d rest where d: "d < 10" "str_nat (nat i) = digit_char d # rest"
    using str_nat_head by blast
  then show ?thesis
    using digit_char_not_special [OF d(1)] by (auto simp: str_int_def)
qed

lemma checkpoint_path_inj: "checkpoint_path sd i = checkpoint_path sd j \<Longrightarrow> i = j"
  using str_int_head [of i] str_int_head [of j]
  by (auto simp: checkpoint_path_def path_join_def dest: str_int_inj split: if_splits)

lemma checkpoint_path_plain:
  "sd \<noteq> [] \<Longrightarrow> last sd \<noteq> CHR ''/'' \<Longrightarrow> checkpoint_path sd e = sd @ ''/'' @ str_int e @ ''.pth''"
  using str_int_head [of e] by (simp add: checkpoint_path_def path_join_def)

subsection \<open>The epoch loop\<close>

lemma epoch_body_trace:
  "trace (epoch_body en co sd e s) =
     trace s @ iteration_events en sd (ema_model s \<noteq> None) (scaler s \<noteq> None) e"
  by (simp add: epoch_body_def iteration_events_def set_epoch_def train_one_epoch_def
      lr_step_def save_on_master_def emit_def checkpoint_path_def Let_def)

lemma epoch_body_frame:
  "(\<exists>y. ema_model (epoch_body en co sd e s) = Some y) = (\<exists>y. ema_model s = Some y)"
  "scaler (epoch_body en co sd e s) = scaler s"
  "last_epoch (epoch_body en co sd e s) = last_epoch s"
  "step_count (lr_scheduler (epoch_body en co sd e s)) = Suc (step_count (lr_scheduler s))"
  by (simp_all add: epoch_body_def set_epoch_def train_one_epoch_def
      lr_step_def save_on_master_def emit_def Let_def)

lemma epoch_loop_trace:
  "trace (epoch_loop en co sd es s) =
     trace s @ concat (map (iteration_events en sd (ema_model s \<noteq> None) (scaler s \<noteq> None)) es)"
  by (induction es arbitrary: s) (simp_all add: epoch_body_trace epoch_body_frame)

lemma epoch_loop_frame:
  "(\<exists>y. ema_model (epoch_loop en co sd es s) = Some y) = (\<exists>y. ema_model s = Some y)"
  "scaler (epoch_loop en co sd es s) = scaler s"
  "last_epoch (epoch_loop en co sd es s) = last_epoch s"
  "step_count (lr_scheduler (epoch_loop en co sd es s)) = step_count (lr_scheduler s) + length es"
  by (induction es arbitrary: s) (simp_all add: epoch_body_frame)

subsection \<open>Observations of traces\<close>

lemma written_append [simp]: "written (xs @ ys) = written xs @ written ys"
  by (simp add: written_def)

lemma epochs_run_append [simp]: "epochs_run (xs @ ys) = epochs_run xs @ epochs_run ys"
  by (simp add: epochs_run_def)

lemma written_setup [simp]: "written (setup_events en wp ue) = []"
  by (auto simp: written_def setup_events_def split: option.splits)

lemma epochs_run_setup [simp]: "epochs_run (setup_events en wp ue) = []"
  by (auto simp: epochs_run_def setup_events_def split: option.splits)

lemma written_iterations:
  "written (concat (map (iteration_events en sd a b) es)) =
     (if is_main_process en then map (checkpoint_path sd) es else [])"
  by (induction es) (simp_all add: written_def iteration_events_def)

lemma epochs_run_iterations:
  "epochs_run (concat (map (iteration_events en sd a b) es)) = es"
  by (induction es) (simp_all add: epochs_run_def iteration_events_def)

subsection \<open>The whole of \<open>fit\<close>\<close>

lemma resume_result:
  "resume co wp s = Inr s1 \<Longrightarrow>
     trace s1 = trace s @ (case wp of None \<Rightarrow> [] | Some p \<Rightarrow> [LoadTuningState p]) \<and>
     last_epoch s1 = (case wp of None \<Rightarrow> 0 | Some p \<Rightarrow> (case files s p of None \<Rightarrow> 0 | Some ck \<Rightarrow> ck_epoch ck)) \<and>
     (\<exists>y. ema_model s1 = Some y) = (\<exists>y. ema_model s = Some y) \<and>
     scaler s1 = scaler s \<and> lr_scheduler s1 = lr_scheduler s \<and> files s1 = files s"
  by (auto simp: resume_def load_tuning_state_def emit_def split: option.splits sum.splits)

lemma resume_ok:
  "(\<exists>s1. resume co wp s = Inr s1) = (case wp of None \<Rightarrow> True | Some p \<Rightarrow> files s p \<noteq> None)"
  by (auto simp: resume_def load_tuning_state_def split: option.splits sum.splits)

lemma construct_frame:
  "trace (construct_objects ua ue s) = trace s"
  "files (construct_objects ua ue s) = files s"
  "(\<exists>y. ema_model (construct_objects ua ue s) = Some y) = ue"
  "(\<exists>y. scaler (construct_objects ua ue s) = Some y) = ua"
  "lr_scheduler (construct_objects ua ue s) = \<lparr>milestones = [1000], gamma = 1 / 10, step_count = 0\<rparr>"
  by (simp_all add: construct_objects_def)

lemma to_device_frame:
  "trace (to_device en ue s) =
     trace s @ [ModelTo (the_device en)] @ (if ue then [EmaTo (the_device en)] else []) @
     [CriterionTo (the_device en)]"
  "ema_model (to_device en ue s) = ema_model s"
  "scaler (to_device en ue s) = scaler s"
  "last_epoch (to_device en ue s) = last_epoch s"
  "lr_scheduler (to_device en ue s) = lr_scheduler s"
  "files (to_device en ue s) = files s"
  by (simp_all add: to_device_def emit_def Let_def)

lemma dist_wrap_frame:
  "trace (dist_wrap en s) =
     trace s @ (if is_dist_available_and_initialized en
                then [WarpLoader TrainLoader, WarpLoader ValLoader, WarpModel False True] else [])"
  "ema_model (dist_wrap en s) = ema_model s"
  "scaler (dist_wrap en s) = scaler s"
  "last_epoch (dist_wrap en s) = last_epoch s"
  "lr_scheduler (dist_wrap en s) = lr_scheduler s"
  "files (dist_wrap en s) = files s"
  by (simp_all add: dist_wrap_def warp_loader_def warp_model_def emit_def)

lemma fit_trace:
  assumes "fit en co wp sd E ua ue s = Inr s'"
  shows "trace s' = trace s @ setup_events en wp ue @
           concat (map (iteration_events en sd ue ua) (py_range (last_epoch s' + 1) E))"
    and "last_epoch s' = (case wp of None \<Rightarrow> 0 | Some p \<Rightarrow> (case files s p of None \<Rightarrow> 0 | Some ck \<Rightarrow> ck_epoch ck))"
proof -
  from assms obtain s1 where r: "resume co wp (construct_objects ua ue s) = Inr s1"
    and s': "s' = epoch_loop en co sd (py_range (last_epoch s1 + 1) E)
                    (dist_wrap en (to_device en ue s1))"
    by (auto simp: fit_def split: sum.splits)
  note rr = resume_result [OF r]
  have le: "last_epoch s' = last_epoch s1"
    by (simp add: s' epoch_loop_frame dist_wrap_frame to_device_frame)
  show "last_epoch s' = (case wp of None \<Rightarrow> 0 | Some p \<Rightarrow> (case files s p of None \<Rightarrow> 0 | Some ck \<Rightarrow> ck_epoch ck))"
    using rr le by (simp add: construct_frame split: option.splits)
  have "trace s' = trace s1 @ [ModelTo (the_device en)] @ (if ue then [EmaTo (the_device en)] else []) @
     [CriterionTo (the_device en)] @ (if is_dist_available_and_initialized en
                then [WarpLoader TrainLoader, WarpLoader ValLoader, WarpModel False True] else []) @
      concat (map (iteration_events en sd ue ua) (py_range (last_epoch s1 + 1) E))"
    using rr by (simp add: s' epoch_loop_trace dist_wrap_frame to_device_frame construct_frame)
  then show "trace s' = trace s @ setup_events en wp ue @
           concat (map (iteration_events en sd ue ua) (py_range (last_epoch s' + 1) E))"
    using rr le by (simp add: setup_events_def construct_frame)
qed

lemma fit_ok:
  "(\<exists>s'. fit en co wp sd E ua ue s = Inr s') = (case wp of None \<Rightarrow> True | Some p \<Rightarrow> files s p \<noteq> None)"
  using resume_ok [of co wp "construct_objects ua ue s"]
  by (auto simp: fit_def construct_frame split: sum.splits option.splits)

subsection \<open>The checkpoint files of the epoch loop\<close>

lemma py_range_set: "set (py_range a b) = {a..<b}"
  by (auto simp: py_range_def)

lemma py_range_distinct: "distinct (py_range a b)"
  by (simp add: py_range_def)

lemma py_range_Cons: "a < b \<Longrightarrow> py_range a b = a # py_range (a + 1) b"
  by (simp add: py_range_def upto_rec1)

lemma py_range_empty: "b \<le> a \<Longrightarrow> py_range a b = []"
  by (simp add: py_range_def)

lemma py_range_length: "length (py_range a b) = nat (b - a)"
  by (simp add: py_range_def)

lemma epoch_body_files:
  "files (epoch_body en co sd e s) =
     (if is_main_process en
      then (files s)(checkpoint_path sd e \<mapsto>
             state_dict e (model (epoch_body en co sd e s)) (ema_model (epoch_body en co sd e s)))
      else files s)"
  by (simp add: epoch_body_def set_epoch_def train_one_epoch_def
      lr_step_def save_on_master_def emit_def checkpoint_path_def Let_def)

lemma epoch_loop_files_other:
  "p \<notin> checkpoint_path sd ` set es \<Longrightarrow> files (epoch_loop en co sd es s) p = files s p"
  by (induction es arbitrary: s) (auto simp: epoch_body_files)

lemma epoch_loop_files_worker:
  "\<not> is_main_process en \<Longrightarrow> files (epoch_loop en co sd es s) = files s"
  by (induction es arbitrary: s) (auto simp: epoch_body_files)

lemma epoch_loop_files_epoch:
  "is_main_process en \<Longrightarrow> e \<in> set es \<Longrightarrow> distinct es \<Longrightarrow>
     \<exists>ck. files (epoch_loop en co sd es s) (checkpoint_path sd e) = Some ck \<and> ck_epoch ck = e \<and>
          (\<exists>w. ck_ema ck = Some w) = (\<exists>y. ema_model s = Some y)"
proof (induction es arbitrary: s)
  case Nil
  then show ?case by simp
next
  case (Cons a es)
  show ?case
  proof (cases "e = a")
    case True
    with Cons.prems have "checkpoint_path sd e \<notin> checkpoint_path sd ` set es"
      by (auto dest: checkpoint_path_inj)
    then have "files (epoch_loop en co sd (a # es) s) (checkpoint_path sd e) =
        files (epoch_body en co sd a s) (checkpoint_path sd e)"
      by (simp add: epoch_loop_files_other)
    with True Cons.prems(1) show ?thesis
      using epoch_body_frame(1) [of en co sd a s]
      by (auto simp: epoch_body_files state_dict_def)
  next
    case False
    with Cons.prems have "e \<in> set es" "distinct es" by auto
    from Cons.IH [OF Cons.prems(1) this, of "epoch_body en co sd a s"]
    show ?thesis by (simp add: epoch_body_frame)
  qed
qed

subsection \<open>Runs of \<open>fit\<close>\<close>

lemma fit_new_events:
  assumes "fit en co wp sd E ua ue s = Inr s'"
  shows "new_events s s' = setup_events en wp ue @
           concat (map (iteration_events en sd ue ua) (py_range (last_epoch s' + 1) E))"
  using fit_trace(1) [OF assms] by (simp add: new_events_def)

lemma fit_files:
  assumes "fit en co wp sd E ua ue s = Inr s'"
  shows "p \<notin> checkpoint_path sd ` {last_epoch s' + 1..<E} \<Longrightarrow> files s' p = files s p"
    and "\<not> is_main_process en \<Longrightarrow> files s' = files s"
    and "is_main_process en \<Longrightarrow> last_epoch s' < e \<Longrightarrow> e < E \<Longrightarrow>
           \<exists>ck. files s' (checkpoint_path sd e) = Some ck \<and> ck_epoch ck = e \<and>
                (\<exists>w. ck_ema ck = Some w) = ue"
proof -
  from assms obtain s1 where r: "resume co wp (construct_objects ua ue s) = Inr s1"
    and s': "s' = epoch_loop en co sd (py_range (last_epoch s1 + 1) E)
                    (dist_wrap en (to_device en ue s1))"
    by (auto simp: fit_def split: sum.splits)
  note rr = resume_result [OF r]
  have le: "last_epoch s' = last_epoch s1"
    by (simp add: s' epoch_loop_frame dist_wrap_frame to_device_frame)
  have f0: "files (dist_wrap en (to_device en ue s1)) = files s"
    using rr by (simp add: dist_wrap_frame to_device_frame construct_frame)
  have e0: "(\<exists>y. ema_model (dist_wrap en (to_device en ue s1)) = Some y) = ue"
    using rr by (simp add: dist_wrap_frame to_device_frame construct_frame)
  show "files s' p = files s p" if "p \<notin> checkpoint_path sd ` {last_epoch s' + 1..<E}"
  proof -
    from that have "p \<notin> checkpoint_path sd ` set (py_range (last_epoch s1 + 1) E)"
      by (simp add: le py_range_set)
    from epoch_loop_files_other [OF this, of en co "dist_wrap en (to_device en ue s1)"]
    show ?thesis using f0 by (simp add: s')
  qed
  show "\<not> is_main_process en \<Longrightarrow> files s' = files s"
    using f0 by (simp add: s' epoch_loop_files_worker)
  show "\<exists>ck. files s' (checkpoint_path sd e) = Some ck \<and> ck_epoch ck = e \<and>
                (\<exists>w. ck_ema ck = Some w) = ue"
    if "is_main_process en" "last_epoch s' < e" "e < E"
  proof -
    have "e \<in> set (py_range (last_epoch s1 + 1) E)"
      using that le by (simp add: py_range_set)
    from epoch_loop_files_epoch [OF that(1) this py_range_distinct,
        of co sd "dist_wrap en (to_device en ue s1)"]
    show ?thesis using e0 by (simp add: s')
  qed
qed

lemma fit_resumed:
  assumes "files s p = Some ck"
  shows "\<exists>s'. fit en co (Some p) sd E ua ue s = Inr s' \<and> last_epoch s' = ck_epoch ck"
proof -
  from fit_ok [of en co "Some p" sd E ua ue s] assms
  obtain s' where s': "fit en co (Some p) sd E ua ue s = Inr s'" by auto
  from fit_trace(2) [OF s'] assms have "last_epoch s' = ck_epoch ck" by simp
  with s' show ?thesis by blast
qed

lemma fit_scratch:
  "\<exists>s'. fit en co None sd E ua ue s = Inr s' \<and> last_epoch s' = 0"
proof -
  from fit_ok [of en co None sd E ua ue s]
  obtain s' where s': "fit en co None sd E ua ue s = Inr s'" by auto
  from fit_trace(2) [OF s'] have "last_epoch s' = 0" by simp
  with s' show ?thesis by blast
qed

lemma fit_epochs_run:
  assumes "fit en co wp sd E ua ue s = Inr s'"
  shows "epochs_run (new_events s s') = py_range (last_epoch s' + 1) E"
    and "written (new_events s s') =
           (if is_main_process en then map (checkpoint_path sd) (py_range (last_epoch s' + 1) E) else [])"
  by (simp_all add: fit_new_events [OF assms] epochs_run_iterations written_iterations)

lemma with_checkpoint_files:
  "files (with_checkpoint p r) p = Some \<lparr>ck_epoch = r, ck_model = (), ck_ema = None\<rparr>"
  by (simp add: with_checkpoint_def fresh_def)

subsection \<open>What \<open>fit\<close> constructs and keeps\<close>

lemma new_events_append: "trace s' = trace s @ evs \<Longrightarrow> new_events s s' = evs"
  by (simp add: new_events_def)

lemma epoch_body_checkpoint:
  "model (epoch_body en co sd e s) =
     train_model co \<lparr>tc_epoch = e, max_norm = 1 / 10, print_freq = 100,
                     tc_ema = (ema_model s \<noteq> None), tc_scaler = (scaler s \<noteq> None)\<rparr> (model s)"
  "is_main_process en \<Longrightarrow>
     files (epoch_body en co sd e s) (checkpoint_path sd e) =
       Some \<lparr>ck_epoch = e, ck_model = model (epoch_body en co sd e s),
             ck_ema = map_option module (ema_model (epoch_body en co sd e s))\<rparr>"
  "\<not> is_main_process en \<Longrightarrow> files (epoch_body en co sd e s) = files s"
  by (simp_all add: epoch_body_def set_epoch_def train_one_epoch_def state_dict_def
      lr_step_def save_on_master_def emit_def checkpoint_path_def Let_def)

lemma epoch_body_settings:
  "ema_settings (epoch_body en co sd e s) = ema_settings s"
  "lr_settings (epoch_body en co sd e s) = lr_settings s"
  by (simp_all add: epoch_body_def set_epoch_def train_one_epoch_def ema_settings_def lr_settings_def
      lr_step_def save_on_master_def emit_def Let_def option.map_comp comp_def)

lemma epoch_loop_settings:
  "ema_settings (epoch_loop en co sd es s) = ema_settings s"
  "lr_settings (epoch_loop en co sd es s) = lr_settings s"
  by (induction es arbitrary: s) (simp_all add: epoch_body_settings)

lemma setup_settings:
  "ema_settings (dist_wrap en (to_device en ue s)) = ema_settings s"
  "lr_settings (dist_wrap en (to_device en ue s)) = lr_settings s"
  by (simp_all add: ema_settings_def lr_settings_def dist_wrap_frame to_device_frame)

lemma resume_settings:
  "resume co wp s = Inr s1 \<Longrightarrow> ema_settings s1 = ema_settings s \<and> lr_settings s1 = lr_settings s"
  by (auto simp: resume_def load_tuning_state_def emit_def ema_settings_def lr_settings_def
      option.map_comp comp_def split: option.splits sum.splits)

lemma construct_settings:
  "ema_settings (construct_objects ua ue s) = (if ue then Some (9999 / 10000, 2000) else None)"
  "lr_settings (construct_objects ua ue s) = ([1000], 1 / 10)"
  "scaler (construct_objects ua ue s) = (if ua then Some GradScaler else None)"
  by (simp_all add: construct_objects_def ema_settings_def lr_settings_def)

lemma fit_settings:
  assumes "fit en co wp sd E ua ue s = Inr s'"
  shows "ema_settings s' = (if ue then Some (9999 / 10000, 2000) else None)"
    and "lr_settings s' = ([1000], 1 / 10)"
    and "scaler s' = (if ua then Some GradScaler else None)"
    and "step_count (lr_scheduler s') = length (py_range (last_epoch s' + 1) E)"
proof -
  from assms obtain s1 where r: "resume co wp (construct_objects ua ue s) = Inr s1"
    and s': "s' = epoch_loop en co sd (py_range (last_epoch s1 + 1) E)
                    (dist_wrap en (to_device en ue s1))"
    by (auto simp: fit_def split: sum.splits)
  note rs = resume_settings [OF r] and rr = resume_result [OF r]
  show "ema_settings s' = (if ue then Some (9999 / 10000, 2000) else None)"
    using rs by (simp add: s' epoch_loop_settings setup_settings construct_settings)
  show "lr_settings s' = ([1000], 1 / 10)"
    using rs by (simp add: s' epoch_loop_settings setup_settings construct_settings)
  show "scaler s' = (if ua then Some GradScaler else None)"
    using rr by (simp add: s' epoch_loop_frame dist_wrap_frame to_device_frame construct_settings)
  have le: "last_epoch s' = last_epoch s1"
    by (simp add: s' epoch_loop_frame dist_wrap_frame to_device_frame)
  have "step_count (lr_scheduler s') = length (py_range (last_epoch s1 + 1) E)"
    using rr by (simp add: s' epoch_loop_frame dist_wrap_frame to_device_frame construct_frame)
  then show "step_count (lr_scheduler s') = length (py_range (last_epoch s' + 1) E)"
    by (simp add: le)
qed

lemma filter_warp_iterations:
  "filter is_warp (concat (map (iteration_events en sd a b) es)) = []"
  by (induction es) (simp_all add: iteration_events_def)

lemma solo_main: "is_main_process solo" "\<not> is_dist_available_and_initialized solo"
  by (simp_all add: is_main_process_def get_rank_def is_dist_available_and_initialized_def solo_def)

subsection \<open>Runs of \<open>val\<close>\<close>

lemma str_in_sublist: "str_in n h = sublist n h"
  by (induction h) (simp_all add: sublist_Cons_right)

lemma str_in_iff: "str_in n h = (\<exists>pre suf. h = pre @ n @ suf)"
  by (simp add: str_in_sublist sublist_def)

lemma eval_loop_state:
  "fst (eval_loop dt cv bs (s, ev)) =
     s\<lparr>trace := trace s @ concat (map (\<lambda>b. [Forward (grad_enabled s) (model_training s), Update]) bs)\<rparr>"
  by (induction bs arbitrary: s ev) (simp_all add: eval_batch_def emit_def Let_def)

lemma eval_loop_evaluator:
  "snd (eval_loop dt cv bs (s, ev)) =
     fold (\<lambda>b. ev_update cv (map_of (rev (zip (image_ids dt b) (detect dt (model s) b))))) bs ev"
  by (induction bs arbitrary: s ev) (simp_all add: eval_batch_def emit_def Let_def)

lemma finish_state:
  "fst (finish cv (s, ev)) = s\<lparr>trace := trace s @ [LoggerSync, EvaluatorSync, Accumulate, Summarize]\<rparr>"
  "snd (finish cv (s, ev)) = ev_summarize cv (ev_accumulate cv (ev_synchronize cv ev))"
  by (simp_all add: finish_def emit_def Let_def)

lemma load_weights_None: "load_weights en dt None s = (None, s)"
  by (simp add: load_weights_def)

lemma load_weights_remote:
  "str_in ''http'' p \<Longrightarrow>
     load_weights en dt (Some p) s =
       (case hub en p of
          None \<Rightarrow> (Some (FetchFailed p), emit (LoadStateDictFromUrl p) s)
        | Some st \<Rightarrow> (None, load_into_model dt st (emit (LoadStateDictFromUrl p) s)))"
  by (simp add: load_weights_def load_state_def split: option.splits)

lemma load_weights_local:
  "\<not> str_in ''http'' p \<Longrightarrow>
     load_weights en dt (Some p) s =
       (case files s p of
          None \<Rightarrow> (Some (FileNotFound p), emit (TorchLoad p) s)
        | Some st \<Rightarrow> (None, load_into_model dt st (emit (TorchLoad p) s)))"
  by (simp add: load_weights_def load_state_def split: option.splits)

lemma load_into_model_state:
  "load_into_model dt st s =
     s\<lparr>model := load_state_dict dt False (case ck_ema st of Some w \<Rightarrow> w | None \<Rightarrow> ck_model st) (model s),
       trace := trace s @ [LoadStateDict (case ck_ema st of Some w \<Rightarrow> EmaModule | None \<Rightarrow> Model) False]\<rparr>"
  by (simp add: load_into_model_def emit_def split: option.splits)

lemma val_unfold:
  "val en dt cv iou bs wp s =
     (case load_weights en dt wp (criterion_eval (model_eval (s\<lparr>grad_enabled := False\<rparr>))) of
        (Some err, s2) \<Rightarrow> (Inl err, s2\<lparr>grad_enabled := grad_enabled s\<rparr>)
      | (None, s2) \<Rightarrow>
          (let se = finish cv (eval_loop dt cv bs
                      (emit (CriterionTo (the_device en)) (emit (ModelTo (the_device en)) s2),
                       ev_new cv iou))
           in (Inr (make_stats cv iou (snd se), snd se), (fst se)\<lparr>grad_enabled := grad_enabled s\<rparr>)))"
  by (simp add: val_def no_grad_def val_body_def Let_def split: prod.splits option.splits)

lemma val_start:
  "criterion_eval (model_eval (s\<lparr>grad_enabled := False\<rparr>)) =
     s\<lparr>grad_enabled := False, model_training := False, criterion_training := False,
       trace := trace s @ [ModelEval, CriterionEval]\<rparr>"
  by (simp add: criterion_eval_def model_eval_def emit_def)

lemma finish_pair:
  "fst (finish cv se) = (fst se)\<lparr>trace := trace (fst se) @ [LoggerSync, EvaluatorSync, Accumulate, Summarize]\<rparr>"
  "snd (finish cv se) = ev_summarize cv (ev_accumulate cv (ev_synchronize cv (snd se)))"
  by (cases se; simp add: finish_state)+

lemma val_result:
  "fst (val en dt cv iou bs wp s) =
     (case loading_error en s wp of
        Some err \<Rightarrow> Inl err
      | None \<Rightarrow> Inr (make_stats cv iou (evaluated dt cv iou bs (loaded_model en dt s wp)),
                     evaluated dt cv iou bs (loaded_model en dt s wp)))"
  "trace (snd (val en dt cv iou bs wp s)) =
     trace s @ [ModelEval, CriterionEval] @ loading_events en s wp @
     (case loading_error en s wp of Some err \<Rightarrow> [] | None \<Rightarrow> pass_events en bs)"
  "model (snd (val en dt cv iou bs wp s)) = loaded_model en dt s wp"
  "grad_enabled (snd (val en dt cv iou bs wp s)) = grad_enabled s"
  "model_training (snd (val en dt cv iou bs wp s)) = False"
  "criterion_training (snd (val en dt cv iou bs wp s)) = False"
  "files (snd (val en dt cv iou bs wp s)) = files s"
proof -
  let ?s0 = "criterion_eval (model_eval (s\<lparr>grad_enabled := False\<rparr>))"
  have f: "files ?s0 = files s" by (simp add: val_start)
  have lw: "load_weights en dt wp ?s0 =
      (loading_error en s wp,
       ?s0\<lparr>model := loaded_model en dt s wp,
            trace := trace ?s0 @ loading_events en s wp\<rparr>)"
  proof (cases wp)
    case None
    then show ?thesis
      by (simp add: load_weights_None loading_error_def loaded_model_def loading_events_def val_start)
  next
    case (Some p)
    show ?thesis
    proof (cases "str_in ''http'' p")
      case True
      then show ?thesis
        using Some
        by (simp add: load_weights_remote loading_error_def loaded_model_def loading_events_def
            fetch_def load_into_model_state emit_def val_start split: option.splits)
    next
      case False
      then show ?thesis
        using Some
        by (simp add: load_weights_local loading_error_def loaded_model_def loading_events_def
            fetch_def load_into_model_state emit_def val_start split: option.splits)
    qed
  qed
  have v: "val en dt cv iou bs wp s =
     (case (loading_error en s wp,
            ?s0\<lparr>model := loaded_model en dt s wp,
                 trace := trace ?s0 @ loading_events en s wp\<rparr>) of
        (Some err, s2) \<Rightarrow> (Inl err, s2\<lparr>grad_enabled := grad_enabled s\<rparr>)
      | (None, s2) \<Rightarrow>
          (let se = finish cv (eval_loop dt cv bs
                      (emit (CriterionTo (the_device en)) (emit (ModelTo (the_device en)) s2),
                       ev_new cv iou))
           in (Inr (make_stats cv iou (snd se), snd se), (fst se)\<lparr>grad_enabled := grad_enabled s\<rparr>)))"
    by (subst val_unfold, subst lw, rule refl)
  show "fst (val en dt cv iou bs wp s) =
     (case loading_error en s wp of
        Some err \<Rightarrow> Inl err
      | None \<Rightarrow> Inr (make_stats cv iou (evaluated dt cv iou bs (loaded_model en dt s wp)),
                     evaluated dt cv iou bs (loaded_model en dt s wp)))"
    by (simp add: v Let_def finish_pair eval_loop_evaluator eval_loop_state
        evaluated_def emit_def split: option.splits)
  show "trace (snd (val en dt cv iou bs wp s)) =
     trace s @ [ModelEval, CriterionEval] @ loading_events en s wp @
     (case loading_error en s wp of Some err \<Rightarrow> [] | None \<Rightarrow> pass_events en bs)"
    by (simp add: v Let_def finish_pair eval_loop_state emit_def pass_events_def
        val_start split: option.splits)
  show "model (snd (val en dt cv iou bs wp s)) = loaded_model en dt s wp"
    by (simp add: v Let_def finish_pair eval_loop_state emit_def split: option.splits)
  show "grad_enabled (snd (val en dt cv iou bs wp s)) = grad_enabled s"
    by (simp add: v Let_def finish_pair eval_loop_state emit_def split: option.splits)
  show "model_training (snd (val en dt cv iou bs wp s)) = False"
    by (simp add: v Let_def finish_pair eval_loop_state emit_def val_start split: option.splits)
  show "criterion_training (snd (val en dt cv iou bs wp s)) = False"
    by (simp add: v Let_def finish_pair eval_loop_state emit_def val_start split: option.splits)
  show "files (snd (val en dt cv iou bs wp s)) = files s"
    by (simp add: v Let_def finish_pair eval_loop_state emit_def val_start split: option.splits)
qed

lemma val_new_events:
  "new_events s (snd (val en dt cv iou bs wp s)) =
     [ModelEval, CriterionEval] @ loading_events en s wp @
     (case loading_error en s wp of Some err \<Rightarrow> [] | None \<Rightarrow> pass_events en bs)"
  by (simp add: new_events_def val_result(2))

lemma val_body_grad:
  "grad_enabled (snd (val_body en dt cv iou bs wp t)) = grad_enabled t"
  by (simp add: val_body_def Let_def load_weights_def load_state_def load_into_model_def finish_pair
      eval_loop_state emit_def criterion_eval_def model_eval_def split_beta
      split: option.splits prod.splits sum.splits)

lemma forward_in_pass_events:
  "Forward g t \<in> set (pass_events en bs) \<Longrightarrow> \<not> g \<and> \<not> t"
  by (auto simp: pass_events_def split: if_splits)

lemma forward_in_loading_events:
  "Forward g t \<notin> set (loading_events en s wp)"
  by (auto simp: loading_events_def split: option.splits)

lemma count_forward_pass_events:
  "count_list (pass_events en bs) (Forward False False) = length bs"
  by (induction bs) (simp_all add: pass_events_def)

lemma make_stats_lookup:
  "make_stats cv iou ev ''coco_eval_bbox'' =
     (if ''bbox'' \<in> set iou then Some (ev_stats cv ''bbox'' ev) else None)"
  "make_stats cv iou ev ''coco_eval_masks'' =
     (if ''segm'' \<in> set iou then Some (ev_stats cv ''segm'' ev) else None)"
  "dom (make_stats cv iou ev) \<subseteq> {''coco_eval_bbox'', ''coco_eval_masks''}"
  by (auto simp: make_stats_def Let_def split: if_splits)

lemma sync_not_in_loading:
  "LoggerSync \<notin> set (loading_events en s wp)" "EvaluatorSync \<notin> set (loading_events en s wp)"
  "Accumulate \<notin> set (loading_events en s wp)" "Summarize \<notin> set (loading_events en s wp)"
  by (auto simp: loading_events_def split: option.splits)

lemma sync_not_in_batches:
  "LoggerSync \<notin> set (concat (map (\<lambda>b. [Forward False False, Update]) bs))"
  "EvaluatorSync \<notin> set (concat (map (\<lambda>b. [Forward False False, Update]) bs))"
  "Accumulate \<notin> set (concat (map (\<lambda>b. [Forward False False, Update]) bs))"
  "Summarize \<notin> set (concat (map (\<lambda>b. [Forward False False, Update]) bs))"
  by auto

lemma val_returns:
  assumes "val en dt cv iou bs wp s = (Inr (stats, ev), s')"
  shows "loading_error en s wp = None"
    and "ev = evaluated dt cv iou bs (model s')"
    and "stats = make_stats cv iou ev"
    and "new_events s s' = [ModelEval, CriterionEval] @ loading_events en s wp @ pass_events en bs"
proof -
  from assms have f: "fst (val en dt cv iou bs wp s) = Inr (stats, ev)"
    and s': "s' = snd (val en dt cv iou bs wp s)" by simp_all
  from f show e: "loading_error en s wp = None"
    by (simp add: val_result(1) split: option.splits)
  from f e show "ev = evaluated dt cv iou bs (model s')"
    by (simp add: val_result(1,3) s')
  from f e show "stats = make_stats cv iou ev"
    by (auto simp: val_result(1))
  from e show "new_events s s' = [ModelEval, CriterionEval] @ loading_events en s wp @ pass_events en bs"
    by (simp add: s' val_new_events)
qed

section \<open>The claims\<close>

subsection \<open>Checkpoints of a fresh run\<close>

text \<open>
  C1. The claim: a fresh run of \<open>fit\<close> with target epoch count \<open>3\<close>, EMA and mixed precision
  disabled, writes exactly the three files \<open>1.pth\<close>, \<open>2.pth\<close> and \<open>3.pth\<close>, with epoch fields
  1, 2 and 3. The code does not: the loop is \<open>range(last_epoch + 1, epoch)\<close> with
  \<open>last_epoch = 0\<close>, which stops before the target. On a single process, with save
  directory \<open>out\<close>, the run makes the training passes of epochs 1 and 2 only, writes
  \<open>out/1.pth\<close> and \<open>out/2.pth\<close> (epoch fields 1 and 2) and no \<open>out/3.pth\<close>.
\<close>

theorem fit_three_epochs_writes_two_checkpoints:
  "(case fit solo still None ''out'' 3 False False fresh of
       Inl err \<Rightarrow> False
     | Inr s' \<Rightarrow>
         written (trace s') = [''out/1.pth'', ''out/2.pth''] \<and>
         epochs_run (trace s') = [1, 2] \<and>
         files s' ''out/3.pth'' = None \<and>
         map_option ck_epoch (files s' ''out/1.pth'') = Some 1 \<and>
         map_option ck_epoch (files s' ''out/2.pth'') = Some 2)"
  by code_simp

subsection \<open>Checkpoints of a resumed run\<close>

text \<open>
  C2, as stated, fails. The claim: a run resumed from the checkpoint saved at epoch 2 with
  target epoch count 4 writes exactly one new file, \<open>4.pth\<close>, and does not regenerate
  \<open>3.pth\<close>. On a single process, resumed from \<open>out/2.pth\<close>, the one file the run writes is
  \<open>out/3.pth\<close>, with epoch field 3, and there is no \<open>out/4.pth\<close> afterwards.
\<close>

theorem fit_resume_from_two_counterexample:
  "(case fit solo still (Some ''out/2.pth'') ''out'' 4 False False (with_checkpoint ''out/2.pth'' 2) of
      Inl err \<Rightarrow> False
    | Inr s' \<Rightarrow>
        written (new_events (with_checkpoint ''out/2.pth'' 2) s') = [''out/3.pth''] \<and>
        written (new_events (with_checkpoint ''out/2.pth'' 2) s') \<noteq> [''out/4.pth''] \<and>
        files s' ''out/4.pth'' = None \<and>
        map_option ck_epoch (files s' ''out/3.pth'') = Some 3)"
  by code_simp

text \<open>
  C2, amended. For every run of \<open>fit\<close> on the coordinating process that is resumed from a
  checkpoint saved at epoch 2, with target epoch count 4: the run returns; the first
  checkpoint file it writes is \<open>3.pth\<close> under the save directory, which afterwards holds
  epoch field 3 (a file of that name that existed before is overwritten); it writes no
  file other than \<open>3.pth\<close> and \<open>4.pth\<close>, and no checkpoint file of any epoch up to 2.
\<close>

theorem fit_resume_writes_next_epoch_first:
  assumes "files s p = Some ck" and "ck_epoch ck = 2" and "is_main_process en"
  shows "\<exists>s' rest. fit en co (Some p) sd 4 ua ue s = Inr s' \<and>
           written (new_events s s') = checkpoint_path sd 3 # rest \<and>
           set rest \<subseteq> {checkpoint_path sd 4} \<and>
           map_option ck_epoch (files s' (checkpoint_path sd 3)) = Some 3 \<and>
           (\<forall>e\<le>2. checkpoint_path sd e \<notin> set (written (new_events s s')))"
proof -
  from fit_resumed [OF assms(1), of en co sd 4 ua ue] assms(2)
  obtain s' where s': "fit en co (Some p) sd 4 ua ue s = Inr s'" "last_epoch s' = 2" by auto
  have r: "py_range 3 4 = [3]" by code_simp
  have w: "written (new_events s s') = [checkpoint_path sd 3]"
    using assms(3) by (simp add: fit_epochs_run(2) [OF s'(1)] s'(2) r)
  from fit_files(3) [OF s'(1) assms(3), of 3] s'(2)
  have f: "map_option ck_epoch (files s' (checkpoint_path sd 3)) = Some 3" by auto
  have n: "checkpoint_path sd e \<notin> set (written (new_events s s'))" if "e \<le> 2" for e
    using that by (auto simp: w dest!: checkpoint_path_inj)
  from s'(1) w f n show ?thesis by auto
qed

theorem fit_resume_writes_next_epoch_first_witness:
  "files (with_checkpoint ''out/2.pth'' 2) ''out/2.pth'' = Some \<lparr>ck_epoch = 2, ck_model = (), ck_ema = None\<rparr> \<and>
   is_main_process solo \<and>
   (\<exists>s' rest. fit solo still (Some ''out/2.pth'') ''out'' 4 False False (with_checkpoint ''out/2.pth'' 2) = Inr s' \<and>
      written (new_events (with_checkpoint ''out/2.pth'' 2) s') = ''out/3.pth'' # rest \<and>
      set rest \<subseteq> {''out/4.pth''} \<and>
      map_option ck_epoch (files s' ''out/3.pth'') = Some 3)"
proof -
  have m: "is_main_process solo"
    by (simp add: is_main_process_def get_rank_def is_dist_available_and_initialized_def solo_def)
  have p3: "checkpoint_path ''out'' 3 = ''out/3.pth''" by code_simp
  have p4: "checkpoint_path ''out'' 4 = ''out/4.pth''" by code_simp
  from fit_resume_writes_next_epoch_first [where s = "with_checkpoint ''out/2.pth'' 2"
      and p = "''out/2.pth''" and en = solo and co = still and sd = "''out''"
      and ua = False and ue = False, OF with_checkpoint_files _ m]
  show ?thesis using m by (auto simp: with_checkpoint_files p3 p4)
qed

text \<open>
  C3. For every target epoch count \<open>E\<close> and every resume point \<open>r\<close> with \<open>0 \<le> r < E\<close>
  (an epoch field is never negative): a run of \<open>fit\<close> resumed from a checkpoint saved at
  epoch \<open>r\<close> returns, as does a run from scratch to the same target, and both end with
  the same final epoch count; the training passes of the resumed run are those of
  \<open>range(r + 1, E)\<close>, so its loop starts at \<open>r + 1\<close>; and it writes no checkpoint file
  of any epoch up to \<open>r\<close>.
\<close>

theorem fit_resume_reaches_same_epoch:
  assumes "0 \<le> r" and "r < E" and "files s p = Some ck" and "ck_epoch ck = r"
  shows "\<exists>s1 s0. fit en co (Some p) sd E ua ue s = Inr s1 \<and>
           fit en0 co0 None sd0 E ua0 ue0 t = Inr s0 \<and>
           final_epoch_count s s1 = final_epoch_count t s0 \<and>
           epochs_run (new_events s s1) = py_range (r + 1) E \<and>
           (\<forall>e\<le>r. checkpoint_path sd e \<notin> set (written (new_events s s1)))"
proof -
  from fit_resumed [OF assms(3), of en co sd E ua ue] assms(4)
  obtain s1 where s1: "fit en co (Some p) sd E ua ue s = Inr s1" "last_epoch s1 = r" by auto
  from fit_scratch [of en0 co0 sd0 E ua0 ue0 t]
  obtain s0 where s0: "fit en0 co0 None sd0 E ua0 ue0 t = Inr s0" "last_epoch s0 = 0" by auto
  have c1: "final_epoch_count s s1 = E - 1"
    using assms(1,2) by (simp add: final_epoch_count_def fit_epochs_run(1) [OF s1(1)] s1(2) py_range_length)
  have c0: "final_epoch_count t s0 = E - 1"
    using assms(1,2) by (simp add: final_epoch_count_def fit_epochs_run(1) [OF s0(1)] s0(2) py_range_length)
  have w: "checkpoint_path sd e \<notin> set (written (new_events s s1))" if "e \<le> r" for e
    using that by (auto simp: fit_epochs_run(2) [OF s1(1)] s1(2) py_range_set dest!: checkpoint_path_inj)
  from s1 s0 c1 c0 w show ?thesis
    by (auto simp: fit_epochs_run(1) [OF s1(1)])
qed

theorem fit_resume_reaches_same_epoch_witness:
  "(0::int) \<le> 2 \<and> (2::int) < 5 \<and>
   files (with_checkpoint ''out/2.pth'' 2) ''out/2.pth'' = Some \<lparr>ck_epoch = 2, ck_model = (), ck_ema = None\<rparr> \<and>
   (\<exists>s1 s0. fit solo still (Some ''out/2.pth'') ''out'' 5 False False (with_checkpoint ''out/2.pth'' 2) = Inr s1 \<and>
      fit solo still None ''out'' 5 False False fresh = Inr s0 \<and>
      final_epoch_count (with_checkpoint ''out/2.pth'' 2) s1 = final_epoch_count fresh s0 \<and>
      epochs_run (new_events (with_checkpoint ''out/2.pth'' 2) s1) = [3, 4] \<and>
      (\<forall>e\<le>2. checkpoint_path ''out'' e \<notin> set (written (new_events (with_checkpoint ''out/2.pth'' 2) s1))))"
proof -
  have r: "py_range 3 5 = [3, 4]" by code_simp
  have "(0::int) \<le> 2" and "(2::int) < 5" by simp_all
  from fit_resume_reaches_same_epoch [where r = 2 and E = 5 and p = "''out/2.pth''"
      and s = "with_checkpoint ''out/2.pth'' 2" and en = solo and co = still and sd = "''out''"
      and ua = False and ue = False and en0 = solo and co0 = still and sd0 = "''out''"
      and ua0 = False and ue0 = False and t = fresh, OF this with_checkpoint_files]
  show ?thesis by (simp add: with_checkpoint_files r)
qed

subsection \<open>The order of the epoch loop\<close>

text \<open>
  C4. Every run of \<open>fit\<close> that returns has made, after its set-up calls, exactly the calls
  of \<open>iteration_events\<close> for each epoch of its loop in turn: the sampler is told the epoch
  (in a process group only), then one training pass with clipping norm \<open>0.1\<close>, then one step
  of the schedule, then the checkpoint write to \<open>save_dir/{epoch}.pth\<close> (on the
  coordinating process only). The schedule has made one step per epoch of the loop, and on
  the coordinating process the file of each epoch of the loop holds that epoch number, with
  EMA weights exactly when EMA is enabled. For one iteration from any state: the calls are
  those four in that order, the schedule advances by exactly one step, and the checkpoint
  written holds the epoch number, the weights the training pass left and the EMA weights
  if there is a shadow; a process that is not the coordinator writes nothing.
\<close>

theorem fit_iteration_order:
  assumes "fit en co wp sd E ua ue s = Inr s'"
  shows "new_events s s' = setup_events en wp ue @
             concat (map (iteration_events en sd ue ua) (py_range (last_epoch s' + 1) E)) \<and>
         step_count (lr_scheduler s') = length (py_range (last_epoch s' + 1) E) \<and>
         (\<forall>e. is_main_process en \<and> last_epoch s' < e \<and> e < E \<longrightarrow>
              (\<exists>ck. files s' (checkpoint_path sd e) = Some ck \<and> ck_epoch ck = e \<and>
                    (\<exists>w. ck_ema ck = Some w) = ue)) \<and>
         (\<forall>t e. new_events t (epoch_body en co sd e t) =
                   iteration_events en sd (ema_model t \<noteq> None) (scaler t \<noteq> None) e \<and>
                 step_count (lr_scheduler (epoch_body en co sd e t)) = Suc (step_count (lr_scheduler t)) \<and>
                 model (epoch_body en co sd e t) =
                   train_model co \<lparr>tc_epoch = e, max_norm = 1 / 10, print_freq = 100,
                     tc_ema = (ema_model t \<noteq> None), tc_scaler = (scaler t \<noteq> None)\<rparr> (model t) \<and>
                 (if is_main_process en
                  then files (epoch_body en co sd e t) (checkpoint_path sd e) =
                         Some \<lparr>ck_epoch = e, ck_model = model (epoch_body en co sd e t),
                               ck_ema = map_option module (ema_model (epoch_body en co sd e t))\<rparr>
                  else files (epoch_body en co sd e t) = files t))"
proof -
  have body: "new_events t (epoch_body en co sd e t) =
      iteration_events en sd (ema_model t \<noteq> None) (scaler t \<noteq> None) e" for t :: "'a state" and e
    by (rule new_events_append) (rule epoch_body_trace)
  show ?thesis
    using fit_new_events [OF assms] fit_settings(4) [OF assms] fit_files(3) [OF assms]
    by (simp add: body epoch_body_frame(4) epoch_body_checkpoint)
qed

theorem fit_iteration_order_witness:
  "\<exists>s'. fit solo still None ''out'' 3 False False fresh = Inr s' \<and>
     new_events fresh s' =
       [ModelTo Cpu, CriterionTo Cpu,
        TrainOneEpoch \<lparr>tc_epoch = 1, max_norm = 1 / 10, print_freq = 100, tc_ema = False, tc_scaler = False\<rparr>,
        LrStep, TorchSave ''out/1.pth'',
        TrainOneEpoch \<lparr>tc_epoch = 2, max_norm = 1 / 10, print_freq = 100, tc_ema = False, tc_scaler = False\<rparr>,
        LrStep, TorchSave ''out/2.pth''] \<and>
     step_count (lr_scheduler s') = 2"
proof -
  from fit_scratch [of solo still "''out''" 3 False False fresh]
  obtain s' where s': "fit solo still None ''out'' 3 False False fresh = Inr s'" "last_epoch s' = 0"
    by blast
  have r: "py_range 1 3 = [1, 2]" by code_simp
  have p1: "checkpoint_path ''out'' 1 = ''out/1.pth''" by code_simp
  have p2: "checkpoint_path ''out'' 2 = ''out/2.pth''" by code_simp
  have d: "the_device solo = Cpu" by (simp add: the_device_def solo_def)
  from fit_iteration_order [OF s'(1)] show ?thesis
    using s' by (simp add: r p1 p2 d setup_events_def iteration_events_def solo_main)
qed

subsection \<open>The objects \<open>fit\<close> constructs\<close>

text \<open>
  C5. In every run of \<open>fit\<close> that returns, the gradient scaler exists exactly when
  \<open>use_amp\<close> is set; the EMA shadow manager exists exactly when \<open>use_ema\<close> is set, and then
  has decay \<open>0.9999\<close> and 2000 warm-up steps (it is constructed around the model's
  weights); the schedule has the one milestone 1000 and factor \<open>0.1\<close>, so it leaves the
  learning rate alone before step 1000 and multiplies it by \<open>0.1\<close> from there on.
\<close>

theorem fit_constructs_objects:
  assumes "fit en co wp sd E ua ue s = Inr s'"
  shows "scaler s' = (if ua then Some GradScaler else None) \<and>
         map_option (\<lambda>em. (decay em, warmups em)) (ema_model s') =
           (if ue then Some (9999 / 10000, 2000) else None) \<and>
         milestones (lr_scheduler s') = [1000] \<and> gamma (lr_scheduler s') = 1 / 10 \<and>
         (\<forall>n. lr_factor ((lr_scheduler s')\<lparr>step_count := n\<rparr>) = (if n < 1000 then 1 else 1 / 10)) \<and>
         ema_model (construct_objects ua ue s) =
           (if ue then Some \<lparr>module = model s, decay = 9999 / 10000, warmups = 2000\<rparr> else None)"
  using fit_settings(1,2,3) [OF assms]
  by (simp add: ema_settings_def lr_settings_def lr_factor_def construct_objects_def)

theorem fit_constructs_objects_witness:
  "\<exists>s'. fit solo still None ''out'' 3 True True fresh = Inr s' \<and>
     scaler s' = Some GradScaler \<and>
     map_option (\<lambda>em. (decay em, warmups em)) (ema_model s') = Some (9999 / 10000, 2000) \<and>
     milestones (lr_scheduler s') = [1000] \<and> gamma (lr_scheduler s') = 1 / 10"
proof -
  from fit_scratch [of solo still "''out''" 3 True True fresh]
  obtain s' where s': "fit solo still None ''out'' 3 True True fresh = Inr s'" by blast
  from fit_constructs_objects [OF s'] show ?thesis using s' by simp
qed

subsection \<open>Wrapping for a process group\<close>

text \<open>
  C6. In every run of \<open>fit\<close> that returns, the calls of the run split at the call that
  moves the model to its device: no wrapping call comes before it, and after it the
  wrapping calls are, in a process group, exactly those of the train loader, the
  validation loader and the model (with \<open>find_unused_parameters=False\<close> and
  \<open>sync_bn=True\<close>), and outside a process group none at all.
\<close>

theorem fit_wraps_after_device:
  assumes "fit en co wp sd E ua ue s = Inr s'"
  shows "\<exists>pre post. new_events s s' = pre @ ModelTo (the_device en) # post \<and>
           filter is_warp pre = [] \<and>
           filter is_warp post =
             (if is_dist_available_and_initialized en
              then [WarpLoader TrainLoader, WarpLoader ValLoader, WarpModel False True] else [])"
proof -
  let ?pre = "case wp of None \<Rightarrow> [] | Some p \<Rightarrow> [LoadTuningState p]"
  let ?post = "(if ue then [EmaTo (the_device en)] else []) @ [CriterionTo (the_device en)] @
     (if is_dist_available_and_initialized en
      then [WarpLoader TrainLoader, WarpLoader ValLoader, WarpModel False True] else []) @
     concat (map (iteration_events en sd ue ua) (py_range (last_epoch s' + 1) E))"
  have "new_events s s' = ?pre @ ModelTo (the_device en) # ?post"
    by (simp add: fit_new_events [OF assms] setup_events_def)
  moreover have "filter is_warp ?pre = []" by (simp split: option.splits)
  moreover have "filter is_warp ?post =
             (if is_dist_available_and_initialized en
              then [WarpLoader TrainLoader, WarpLoader ValLoader, WarpModel False True] else [])"
    by (simp add: filter_warp_iterations)
  ultimately show ?thesis by blast
qed

theorem fit_wraps_after_device_witness:
  "\<exists>s' pre post. fit leader still None ''out'' 3 False False fresh = Inr s' \<and>
     new_events fresh s' = pre @ ModelTo Cuda # post \<and>
     filter is_warp pre = [] \<and>
     filter is_warp post = [WarpLoader TrainLoader, WarpLoader ValLoader, WarpModel False True]"
proof -
  from fit_scratch [of leader still "''out''" 3 False False fresh]
  obtain s' where s': "fit leader still None ''out'' 3 False False fresh = Inr s'" by blast
  have d: "the_device leader = Cuda" by (simp add: the_device_def leader_def)
  have g: "is_dist_available_and_initialized leader"
    by (simp add: is_dist_available_and_initialized_def leader_def)
  from fit_wraps_after_device [OF s'] show ?thesis using s' by (simp add: d g)
qed

subsection \<open>The loading step of \<open>val\<close>\<close>

text \<open>
  C7. Without a weight source, \<open>val\<close> leaves the model's weights as they are and makes no
  loading call. With a weight source \<open>p\<close> that yields a state (fetched from the URL or read
  from the local file): if the state has EMA weights, the model's weights after \<open>val\<close> are
  \<open>load_state_dict\<close> of the EMA weights with \<open>strict=False\<close>; if it has none, they are
  \<open>load_state_dict\<close> of the plain model weights, also with \<open>strict=False\<close>; the calls are the
  fetch or the read, then the one \<open>load_state_dict\<close>, between the two switches to
  evaluation mode and the evaluation pass. A weight source that yields nothing makes
  \<open>val\<close> raise with the weights unchanged.
\<close>

theorem val_loads_weights:
  "model (snd (val en dt cv iou bs None s)) = model s \<and>
   new_events s (snd (val en dt cv iou bs None s)) = [ModelEval, CriterionEval] @ pass_events en bs \<and>
   (fetch en s p = Some st \<and> ck_ema st = Some w \<longrightarrow>
      model (snd (val en dt cv iou bs (Some p) s)) = load_state_dict dt False w (model s) \<and>
      new_events s (snd (val en dt cv iou bs (Some p) s)) =
        [ModelEval, CriterionEval,
         if str_in ''http'' p then LoadStateDictFromUrl p else TorchLoad p,
         LoadStateDict EmaModule False] @ pass_events en bs) \<and>
   (fetch en s p = Some st \<and> ck_ema st = None \<longrightarrow>
      model (snd (val en dt cv iou bs (Some p) s)) = load_state_dict dt False (ck_model st) (model s) \<and>
      new_events s (snd (val en dt cv iou bs (Some p) s)) =
        [ModelEval, CriterionEval,
         if str_in ''http'' p then LoadStateDictFromUrl p else TorchLoad p,
         LoadStateDict Model False] @ pass_events en bs) \<and>
   (fetch en s p = None \<longrightarrow>
      fst (val en dt cv iou bs (Some p) s) =
        Inl (if str_in ''http'' p then FetchFailed p else FileNotFound p) \<and>
      model (snd (val en dt cv iou bs (Some p) s)) = model s)"
  by (simp add: val_new_events val_result(1,3) loaded_model_def loading_events_def loading_error_def)

theorem val_loads_weights_witness:
  "fetch host idle ''ema.pth'' = Some \<lparr>ck_epoch = 5, ck_model = 7, ck_ema = Some 9\<rparr> \<and>
   model (snd (val host net tally [''bbox''] [1, 2] (Some ''ema.pth'') idle)) = 9 \<and>
   fetch host idle ''plain.pth'' = Some \<lparr>ck_epoch = 5, ck_model = 7, ck_ema = None\<rparr> \<and>
   model (snd (val host net tally [''bbox''] [1, 2] (Some ''plain.pth'') idle)) = 7 \<and>
   fetch host idle ''https://models/w.pth'' = Some \<lparr>ck_epoch = 72, ck_model = 3, ck_ema = Some 4\<rparr> \<and>
   model (snd (val host net tally [''bbox''] [1, 2] (Some ''https://models/w.pth'') idle)) = 4 \<and>
   fetch host idle ''missing.pth'' = None \<and>
   fst (val host net tally [''bbox''] [1, 2] (Some ''missing.pth'') idle) = Inl (FileNotFound ''missing.pth'') \<and>
   model (snd (val host net tally [''bbox''] [1, 2] None idle)) = 0"
proof -
  have f1: "fetch host idle ''ema.pth'' = Some \<lparr>ck_epoch = 5, ck_model = 7, ck_ema = Some 9\<rparr>"
    by (simp add: fetch_def idle_def)
  have f2: "fetch host idle ''plain.pth'' = Some \<lparr>ck_epoch = 5, ck_model = 7, ck_ema = None\<rparr>"
    by (simp add: fetch_def idle_def)
  have f3: "fetch host idle ''https://models/w.pth'' = Some \<lparr>ck_epoch = 72, ck_model = 3, ck_ema = Some 4\<rparr>"
    by (simp add: fetch_def host_def)
  have f4: "fetch host idle ''missing.pth'' = None"
    by (simp add: fetch_def idle_def)
  have n: "\<not> str_in ''http'' ''missing.pth''" by simp
  have m: "model idle = 0" by (simp add: idle_def)
  have l: "load_state_dict net False w old = w" for w old by (simp add: net_def)
  note t = val_loads_weights [where en = host and dt = net and cv = tally and iou = "[''bbox'']"
      and bs = "[1, 2]" and s = idle]
  from t [where p = "''ema.pth''" and st = "\<lparr>ck_epoch = 5, ck_model = 7, ck_ema = Some 9\<rparr>" and w = 9] f1
  have "model (snd (val host net tally [''bbox''] [1, 2] (Some ''ema.pth'') idle)) = 9"
    by (simp add: l)
  moreover
  from t [where p = "''plain.pth''" and st = "\<lparr>ck_epoch = 5, ck_model = 7, ck_ema = None\<rparr>"] f2
  have "model (snd (val host net tally [''bbox''] [1, 2] (Some ''plain.pth'') idle)) = 7"
    by (simp add: l)
  moreover
  from t [where p = "''https://models/w.pth''"
      and st = "\<lparr>ck_epoch = 72, ck_model = 3, ck_ema = Some 4\<rparr>" and w = 4] f3
  have "model (snd (val host net tally [''bbox''] [1, 2] (Some ''https://models/w.pth'') idle)) = 4"
    by (simp add: l)
  moreover from t [where p = "''missing.pth''"] f4 n
  have "fst (val host net tally [''bbox''] [1, 2] (Some ''missing.pth'') idle) = Inl (FileNotFound ''missing.pth'')"
    by simp
  moreover from t [where p = "''x''"] m have "model (snd (val host net tally [''bbox''] [1, 2] None idle)) = 0"
    by simp
  ultimately show ?thesis using f1 f2 f3 f4 by simp
qed

subsection \<open>Synchronisation and the returned statistics\<close>

text \<open>
  C8. Whenever \<open>val\<close> returns, the last four calls it made are the synchronisation of the
  logger, the synchronisation of the accumulator, accumulate and summarise, in this
  order, and none of the four was made before; the accumulator returned is the one
  constructed for the task types, updated once per batch, then synchronised, accumulated
  and summarised; the returned mapping has the key \<open>coco_eval_bbox\<close> with the \<open>bbox\<close>
  statistics exactly when \<open>bbox\<close> is a task type, the key \<open>coco_eval_masks\<close> with the \<open>segm\<close>
  statistics exactly when \<open>segm\<close> is one, and no other key.
\<close>

theorem val_synchronizes_before_summary:
  assumes "val en dt cv iou bs wp s = (Inr (stats, ev), s')"
  shows "(\<exists>pre. new_events s s' = pre @ [LoggerSync, EvaluatorSync, Accumulate, Summarize] \<and>
              LoggerSync \<notin> set pre \<and> EvaluatorSync \<notin> set pre \<and>
              Accumulate \<notin> set pre \<and> Summarize \<notin> set pre) \<and>
         ev = ev_summarize cv (ev_accumulate cv (ev_synchronize cv
                (fold (\<lambda>b. ev_update cv (map_of (rev (zip (image_ids dt b) (detect dt (model s') b)))))
                   bs (ev_new cv iou)))) \<and>
         stats ''coco_eval_bbox'' = (if ''bbox'' \<in> set iou then Some (ev_stats cv ''bbox'' ev) else None) \<and>
         stats ''coco_eval_masks'' = (if ''segm'' \<in> set iou then Some (ev_stats cv ''segm'' ev) else None) \<and>
         dom stats \<subseteq> {''coco_eval_bbox'', ''coco_eval_masks''}"
proof -
  note r = val_returns [OF assms]
  let ?pre = "[ModelEval, CriterionEval] @ loading_events en s wp @
     [ModelTo (the_device en), CriterionTo (the_device en)] @
     concat (map (\<lambda>b. [Forward False False, Update]) bs)"
  have "new_events s s' = ?pre @ [LoggerSync, EvaluatorSync, Accumulate, Summarize]"
    by (simp add: r(4) pass_events_def)
  moreover have "LoggerSync \<notin> set ?pre \<and> EvaluatorSync \<notin> set ?pre \<and>
              Accumulate \<notin> set ?pre \<and> Summarize \<notin> set ?pre"
    using sync_not_in_loading [of en s wp] sync_not_in_batches [of bs] by simp
  ultimately have "\<exists>pre. new_events s s' = pre @ [LoggerSync, EvaluatorSync, Accumulate, Summarize] \<and>
              LoggerSync \<notin> set pre \<and> EvaluatorSync \<notin> set pre \<and>
              Accumulate \<notin> set pre \<and> Summarize \<notin> set pre"
    by blast
  moreover have "ev = ev_summarize cv (ev_accumulate cv (ev_synchronize cv
                (fold (\<lambda>b. ev_update cv (map_of (rev (zip (image_ids dt b) (detect dt (model s') b)))))
                   bs (ev_new cv iou))))"
    using r(2) by (simp add: evaluated_def)
  ultimately show ?thesis
    using make_stats_lookup [of cv iou ev] by (simp add: r(3))
qed

theorem val_synchronizes_before_summary_witness:
  "\<exists>stats s'. val host net tally [''bbox''] [1, 2] None idle =
       (Inr (stats, [''new'', ''update'', ''update'', ''synchronize'', ''accumulate'', ''summarize'']), s') \<and>
     stats ''coco_eval_bbox'' = Some [6] \<and> stats ''coco_eval_masks'' = None \<and>
     (\<exists>pre. new_events idle s' = pre @ [LoggerSync, EvaluatorSync, Accumulate, Summarize])"
proof -
  have "loading_error host idle None = None" by (simp add: loading_error_def)
  then have "\<exists>res. fst (val host net tally [''bbox''] [1, 2] None idle) = Inr res"
    by (simp add: val_result(1))
  then obtain stats ev s' where v: "val host net tally [''bbox''] [1, 2] None idle = (Inr (stats, ev), s')"
    by (cases "val host net tally [''bbox''] [1, 2] None idle") auto
  note t = val_synchronizes_before_summary [OF v]
  from t have ev: "ev = [''new'', ''update'', ''update'', ''synchronize'', ''accumulate'', ''summarize'']"
    by (simp add: tally_def)
  from t have "stats ''coco_eval_bbox'' = Some [6]" and "stats ''coco_eval_masks'' = None"
    by (simp_all add: ev tally_def)
  moreover from t have "\<exists>pre. new_events idle s' = pre @ [LoggerSync, EvaluatorSync, Accumulate, Summarize]"
    by blast
  ultimately show ?thesis using v ev by blast
qed

subsection \<open>No gradients in \<open>val\<close>\<close>

text \<open>
  C9. \<open>val\<close> is its body under \<open>no_grad\<close>, and the body never switches gradients back
  on. In every run, returning or raising, the first two calls put the model and the
  criterion in evaluation mode; every forward pass after them runs with gradients off and
  the model in evaluation mode, and a returning run makes one forward pass per batch.
  Afterwards model and criterion are in evaluation mode and the gradient switch is what
  it was before the call.
\<close>

theorem val_without_gradients:
  assumes "val en dt cv iou bs wp s = (r, s')"
  shows "val en dt cv iou bs wp = no_grad (val_body en dt cv iou bs wp) \<and>
         \<not> grad_enabled (snd (val_body en dt cv iou bs wp (s\<lparr>grad_enabled := False\<rparr>))) \<and>
         (\<exists>rest. new_events s s' = ModelEval # CriterionEval # rest \<and>
                 (\<forall>g t. Forward g t \<in> set rest \<longrightarrow> \<not> g \<and> \<not> t) \<and>
                 count_list rest (Forward False False) = (case r of Inl err \<Rightarrow> 0 | Inr res \<Rightarrow> length bs)) \<and>
         \<not> model_training s' \<and> \<not> criterion_training s' \<and>
         grad_enabled s' = grad_enabled s"
proof -
  from assms have f: "fst (val en dt cv iou bs wp s) = r"
    and s': "s' = snd (val en dt cv iou bs wp s)" by simp_all
  let ?rest = "loading_events en s wp @
     (case loading_error en s wp of Some err \<Rightarrow> [] | None \<Rightarrow> pass_events en bs)"
  have n: "new_events s s' = ModelEval # CriterionEval # ?rest"
    by (simp add: s' val_new_events)
  have a: "\<not> g \<and> \<not> t" if "Forward g t \<in> set ?rest" for g t
    using that forward_in_loading_events [of g t en s wp] forward_in_pass_events [of g t en bs]
    by (auto split: option.splits)
  have l: "count_list (loading_events en s wp) (Forward False False) = 0"
    using forward_in_loading_events [of False False en s wp] by (simp add: count_list_0_iff)
  have c: "count_list ?rest (Forward False False) = (case r of Inl err \<Rightarrow> 0 | Inr res \<Rightarrow> length bs)"
    using f l by (auto simp: val_result(1) count_forward_pass_events split: option.splits)
  from n a c have "\<exists>rest. new_events s s' = ModelEval # CriterionEval # rest \<and>
                 (\<forall>g t. Forward g t \<in> set rest \<longrightarrow> \<not> g \<and> \<not> t) \<and>
                 count_list rest (Forward False False) = (case r of Inl err \<Rightarrow> 0 | Inr res \<Rightarrow> length bs)"
    by blast
  moreover have "val en dt cv iou bs wp = no_grad (val_body en dt cv iou bs wp)"
    by (rule ext) (simp add: val_def)
  moreover have "\<not> grad_enabled (snd (val_body en dt cv iou bs wp (s\<lparr>grad_enabled := False\<rparr>)))"
    by (simp add: val_body_grad)
  moreover have "\<not> model_training s' \<and> \<not> criterion_training s' \<and> grad_enabled s' = grad_enabled s"
    by (simp add: s' val_result(4,5,6))
  ultimately show ?thesis by blast
qed

theorem val_without_gradients_witness:
  "\<exists>r s'. val host net tally [''bbox''] [1, 2] None idle = (r, s') \<and>
     new_events idle s' =
       [ModelEval, CriterionEval, ModelTo Cpu, CriterionTo Cpu,
        Forward False False, Update, Forward False False, Update,
        LoggerSync, EvaluatorSync, Accumulate, Summarize] \<and>
     grad_enabled s' \<and> \<not> model_training s' \<and> \<not> criterion_training s'"
proof -
  obtain r s' where v: "val host net tally [''bbox''] [1, 2] None idle = (r, s')"
    by (cases "val host net tally [''bbox''] [1, 2] None idle")
  then have s': "s' = snd (val host net tally [''bbox''] [1, 2] None idle)" by simp
  have n: "new_events idle s' =
       [ModelEval, CriterionEval, ModelTo Cpu, CriterionTo Cpu,
        Forward False False, Update, Forward False False, Update,
        LoggerSync, EvaluatorSync, Accumulate, Summarize]"
    by (simp add: s' val_new_events loading_events_def loading_error_def pass_events_def
        the_device_def host_def)
  have g: "grad_enabled idle" by (simp add: idle_def)
  from val_without_gradients [OF v] v n g show ?thesis by simp
qed

subsection \<open>The origin of a weight source\<close>

text \<open>
  C10. For every weight source \<open>p\<close> given to \<open>val\<close>: the URL fetch is called exactly when
  \<open>http\<close> occurs somewhere in \<open>p\<close>, and the local read exactly when it occurs nowhere; so
  the state comes from the URL fetch in the first case and from the local file in the
  second. A local path that contains \<open>http\<close>, such as \<open>/data/http_cache/model.pth\<close>, is
  fetched as a URL even though the file exists.
\<close>

theorem val_remote_iff_http_substring:
  assumes "val en dt cv iou bs (Some p) s = (r, s')"
  shows "(LoadStateDictFromUrl p \<in> set (new_events s s')) = (\<exists>pre suf. p = pre @ ''http'' @ suf) \<and>
         (TorchLoad p \<in> set (new_events s s')) = (\<not> (\<exists>pre suf. p = pre @ ''http'' @ suf)) \<and>
         fetch en s p = (if \<exists>pre suf. p = pre @ ''http'' @ suf then hub en p else files s p) \<and>
         (case fetch en s p of
            None \<Rightarrow> r = Inl (if \<exists>pre suf. p = pre @ ''http'' @ suf then FetchFailed p else FileNotFound p)
          | Some st \<Rightarrow> \<exists>res. r = Inr res)"
proof -
  from assms have f: "fst (val en dt cv iou bs (Some p) s) = r"
    and s': "s' = snd (val en dt cv iou bs (Some p) s)" by simp_all
  have i: "(\<exists>pre suf. p = pre @ ''http'' @ suf) = str_in ''http'' p"
    by (simp add: str_in_iff)
  have a: "LoadStateDictFromUrl p \<notin> set (pass_events en bs)" "TorchLoad p \<notin> set (pass_events en bs)"
    by (auto simp: pass_events_def)
  have "(LoadStateDictFromUrl p \<in> set (new_events s s')) = str_in ''http'' p"
    using a by (auto simp: s' val_new_events loading_events_def split: option.splits)
  moreover have "(TorchLoad p \<in> set (new_events s s')) = (\<not> str_in ''http'' p)"
    using a by (auto simp: s' val_new_events loading_events_def split: option.splits)
  moreover have "(case fetch en s p of
            None \<Rightarrow> r = Inl (if str_in ''http'' p then FetchFailed p else FileNotFound p)
          | Some st \<Rightarrow> \<exists>res. r = Inr res)"
    using f by (auto simp: val_result(1) loading_error_def split: option.splits)
  ultimately show ?thesis
    unfolding i by (simp add: fetch_def)
qed

theorem val_remote_iff_http_substring_witness:
  "\<exists>s'. val host net tally [''bbox''] [1, 2] (Some ''/data/http_cache/model.pth'') idle =
       (Inl (FetchFailed ''/data/http_cache/model.pth''), s') \<and>
     LoadStateDictFromUrl ''/data/http_cache/model.pth'' \<in> set (new_events idle s') \<and>
     TorchLoad ''/data/http_cache/model.pth'' \<notin> set (new_events idle s') \<and>
     files idle ''/data/http_cache/model.pth'' \<noteq> None"
proof -
  obtain r s' where v: "val host net tally [''bbox''] [1, 2] (Some ''/data/http_cache/model.pth'') idle = (r, s')"
    by (cases "val host net tally [''bbox''] [1, 2] (Some ''/data/http_cache/model.pth'') idle")
  have h: "\<exists>pre suf. ''/data/http_cache/model.pth'' = pre @ ''http'' @ suf"
    by (rule exI [of _ "''/data/''"], rule exI [of _ "''_cache/model.pth''"]) simp
  have u: "hub host ''/data/http_cache/model.pth'' = None" by (simp add: host_def)
  have fl: "files idle ''/data/http_cache/model.pth'' \<noteq> None" by (simp add: idle_def)
  from h have hs: "(\<exists>pre suf. ''/data/http_cache/model.pth'' = pre @ ''http'' @ suf) = True"
    by simp
  from val_remote_iff_http_substring [OF v, unfolded hs] u
  have "r = Inl (FetchFailed ''/data/http_cache/model.pth'')"
    and "LoadStateDictFromUrl ''/data/http_cache/model.pth'' \<in> set (new_events idle s')"
    and "TorchLoad ''/data/http_cache/model.pth'' \<notin> set (new_events idle s')"
    by auto
  with v fl show ?thesis by blast
qed

end
